theory Spec2Isabelle
  imports Complex_Main "HOL-Library.Log_Nat"
begin

section \<open>Lua numbers\<close>

text \<open>
  The scripts run in Redis on Lua 5.1, whose only number type is the IEEE 754 binary64
  double. \<^verbatim>\<open>tonumber\<close> reads a string with \<^verbatim>\<open>strtod\<close>, which gives the double nearest
  to the numeral (ties to the even significand), an infinity when the numeral is out of
  range, and which also reads \<^verbatim>\<open>inf\<close> and \<^verbatim>\<open>Infinity\<close>; \<^verbatim>\<open>+\<close> is the correctly
  rounded sum; \<^verbatim>\<open>tostring\<close> prints with \<^verbatim>\<open>%.14g\<close>, fourteen significant decimal
  digits.

  A \<open>lua_number\<close> is a double or an infinity. The same type stands for a string that
  holds a numeral (an argument, a hash field, a field of a reply): \<open>Fin r\<close> is then the
  numeral of exact value \<open>r\<close>, and \<open>PInf\<close>, \<open>NInf\<close> are \<^verbatim>\<open>inf\<close> and \<^verbatim>\<open>-inf\<close>;
  \<open>tonumber\<close> and \<open>tostring\<close> go from the one reading to the other. A string that is
  no numeral, for which \<^verbatim>\<open>tonumber\<close> returns \<^verbatim>\<open>nil\<close>, is \<open>None\<close>.

  NaN is left out. No string of the program holds it (the \<^verbatim>\<open>BID_PLACED\<close> handler
  rejects an amount that is NaN), and the one operation of the scripts that can
  produce it, the sum of the two infinities, returns \<open>None\<close> here; every comparison
  with NaN is false. The sign of zero is not modelled: no comparison depends on it.
\<close>

datatype lua_number = Fin rat | PInf | NInf

text \<open>Rounding to the nearest integer, ties to the even one.\<close>

definition round_half_even :: "rat \<Rightarrow> int" where
  "round_half_even x =
    (let n = \<lfloor>x\<rfloor>; r = x - of_int n
     in if r < 1 / 2 then n else if 1 / 2 < r then n + 1 else if even n then n else n + 1)"

text \<open>
  \<open>ilog b x\<close> is the integer \<open>k\<close> with \<open>b ^ k \<le> x < b ^ (k + 1)\<close>, for \<open>x > 0\<close>,
  computed from the lengths of numerator and denominator in base \<open>b\<close>.
\<close>

definition ilog :: "nat \<Rightarrow> rat \<Rightarrow> int" where
  "ilog b x =
    (case quotient_of x of (p, q) \<Rightarrow>
       let k = int (floorlog b (nat p)) - int (floorlog b (nat q))
       in if of_nat b powi k \<le> x then k else k - 1)"

text \<open>
  The double nearest to a rational: 53 significant bits, the least exponent that of the
  subnormal numbers (unit \<open>2 ^ - 1074\<close>), and an infinity when the rounded value
  reaches \<open>2 ^ 1024\<close>.
\<close>

definition binary64 :: "rat \<Rightarrow> lua_number" where
  "binary64 x =
    (if x = 0 then Fin 0
     else let e = max (ilog 2 \<bar>x\<bar> - 52) (- 1074);
              v = of_int (round_half_even (x / 2 powi e)) * 2 powi e
          in if 2 ^ 1024 \<le> v then PInf else if v \<le> - (2 ^ 1024) then NInf else Fin v)"

text \<open>The value that \<^verbatim>\<open>%.14g\<close> prints for a double: fourteen significant digits.\<close>

definition format_14g :: "rat \<Rightarrow> rat" where
  "format_14g x =
    (if x = 0 then 0
     else let u = 10 powi (ilog 10 \<bar>x\<bar> - 13)
          in of_int (round_half_even (x / u)) * u)"

fun tonumber :: "lua_number \<Rightarrow> lua_number" where
  "tonumber (Fin r) = binary64 r"
| "tonumber PInf = PInf"
| "tonumber NInf = NInf"

fun tostring :: "lua_number \<Rightarrow> lua_number" where
  "tostring (Fin x) = Fin (format_14g x)"
| "tostring PInf = PInf"
| "tostring NInf = NInf"

text \<open>\<^verbatim>\<open>a + b\<close> on doubles; \<open>None\<close> is NaN.\<close>

fun lua_add :: "lua_number \<Rightarrow> lua_number \<Rightarrow> lua_number option" where
  "lua_add (Fin a) (Fin b) = Some (binary64 (a + b))"
| "lua_add PInf NInf = None"
| "lua_add NInf PInf = None"
| "lua_add PInf _ = Some PInf"
| "lua_add _ PInf = Some PInf"
| "lua_add NInf _ = Some NInf"
| "lua_add _ NInf = Some NInf"

text \<open>\<^verbatim>\<open>a < b\<close> and \<^verbatim>\<open>a <= b\<close>.\<close>

fun lua_less :: "lua_number \<Rightarrow> lua_number \<Rightarrow> bool" where
  "lua_less (Fin a) (Fin b) = (a < b)"
| "lua_less (Fin a) PInf = True"
| "lua_less (Fin a) NInf = False"
| "lua_less PInf _ = False"
| "lua_less NInf NInf = False"
| "lua_less NInf _ = True"

definition lua_le :: "lua_number \<Rightarrow> lua_number \<Rightarrow> bool" where
  "lua_le a b = (\<not> lua_less b a)"

section \<open>The hot store: auction hashes, bid history, active index\<close>

text \<open>
  The hot store is the Redis keyspace the three Lua scripts work on
  (\<^verbatim>\<open>backend/src/redis/lua-scripts/place-bid.lua\<close>, which also holds the finalize
  script, and \<^verbatim>\<open>extend-auction.lua\<close>).

  Every field of a hash is a string. The prices that \<^verbatim>\<open>loadAuctionToRedis\<close> writes
  from the rows of the database are decimal numerals, held by their exact value; the
  current bid, which the place-bid script overwrites with \<^verbatim>\<open>tostring(bidAmount)\<close>, is
  any numeral. Times are integers of seconds, which doubles and \<^verbatim>\<open>%.14g\<close> keep
  exactly. An argument or field on which the script tests for \<^verbatim>\<open>nil\<close>
  (\<^verbatim>\<open>not bidAmount\<close>, \<^verbatim>\<open>x or y\<close>) is an \<open>option\<close>, \<open>None\<close> standing for \<^verbatim>\<open>nil\<close>;
  the other fields are those that \<^verbatim>\<open>loadAuctionToRedis\<close> writes into every hash, and
  are total.
\<close>

datatype auction_status = Draft | Scheduled | Active | Ended | Cancelled

text \<open>The hash at key \<^verbatim>\<open>auction:{auctionId}\<close>, with the fields the scripts read.\<close>

record auction_hash =
  auction_id :: string
  seller_id :: string
  starting_price :: rat
  current_bid :: "lua_number option"
  bid_increment :: "rat option"
  highest_bidder_id :: "string option"
  total_bids :: "int option"
  end_time :: int
  status :: auction_status

text \<open>A member of the sorted set \<^verbatim>\<open>auction:{auctionId}:bids\<close> (the encoded \<^verbatim>\<open>bidData\<close>).\<close>

record bid_data =
  bd_bidder_id :: string
  bd_amount :: lua_number
  bd_time :: int
  bd_previous_bid :: lua_number

text \<open>
  A sorted set is a map from members to scores: \<^verbatim>\<open>ZADD\<close> sets the score of a member,
  \<^verbatim>\<open>ZREM\<close> removes it; the empty map is the absent key. A score of the bid history
  is a double (Redis passes a Lua number to a command with \<^verbatim>\<open>%.17g\<close>, which loses
  nothing); a score of the active index is a time. \<open>expire_at\<close> records the
  time given to \<^verbatim>\<open>EXPIREAT\<close> for a key. The deletion of an expired key is an action
  of the store's own clock, not of a script, and is not modelled.
\<close>

record hot_store =
  hashes :: "string \<rightharpoonup> auction_hash"
  bids_zset :: "string \<Rightarrow> bid_data \<rightharpoonup> lua_number"
  auctions_active :: "string \<rightharpoonup> int"
  expire_at :: "string \<rightharpoonup> int"

subsection \<open>place-bid.lua\<close>

datatype place_bid_result =
    BidPlaced string lua_number string int lua_number string
  | BidTooLow string lua_number lua_number lua_number bool
  | AuctionHasEnded string int int
  | AuctionNotFound
  | AuctionNotActive string auction_status
  | SellerCannotBid string
  | InvalidBidAmount

text \<open>The \<^verbatim>\<open>status\<close> number of the script's reply.\<close>

fun place_bid_status :: "place_bid_result \<Rightarrow> int" where
  "place_bid_status (BidPlaced _ _ _ _ _ _) = 1"
| "place_bid_status (BidTooLow _ _ _ _ _) = 0"
| "place_bid_status (AuctionHasEnded _ _ _) = -1"
| "place_bid_status AuctionNotFound = -2"
| "place_bid_status (AuctionNotActive _ _) = -3"
| "place_bid_status (SellerCannotBid _) = -4"
| "place_bid_status InvalidBidAmount = -5"

text \<open>
  The locals of the script that depend on the hash and on \<^verbatim>\<open>ARGV[4]\<close> only, in the
  order of the script (lines 81 to 85 and 137 to 149): the increment is the one passed
  when it is a number above 0, else the stored one, else 0; the current bid is the
  stored one, else the starting price; the minimum is the starting price for a first
  bid, else the rounded sum of current bid and increment.
\<close>

definition bidIncrement :: "auction_hash \<Rightarrow> lua_number option \<Rightarrow> lua_number" where
  "bidIncrement auction incrementArg =
    (let bidIncrementInput = map_option tonumber incrementArg;
         storedIncrement = (case bid_increment auction of
                              Some i \<Rightarrow> tonumber (Fin i) | None \<Rightarrow> Fin 0)
     in case bidIncrementInput of
          Some i \<Rightarrow> if lua_less (Fin 0) i then i else storedIncrement
        | None \<Rightarrow> storedIncrement)"

definition isFirstBid :: "auction_hash \<Rightarrow> bool" where
  "isFirstBid auction =
    (highest_bidder_id auction = None \<or> highest_bidder_id auction = Some [])"

definition currentBid :: "auction_hash \<Rightarrow> lua_number" where
  "currentBid auction =
    (case current_bid auction of
       Some c \<Rightarrow> tonumber c
     | None \<Rightarrow> tonumber (Fin (starting_price auction)))"

definition minimumBid :: "auction_hash \<Rightarrow> lua_number option \<Rightarrow> lua_number option" where
  "minimumBid auction incrementArg =
    (if isFirstBid auction then Some (tonumber (Fin (starting_price auction)))
     else lua_add (currentBid auction) (bidIncrement auction incrementArg))"

text \<open>
  The writes and the reply of an accepted bid (lines 165 to 206). \<open>BidPlaced\<close>
  carries \<^verbatim>\<open>auction_id\<close>, \<^verbatim>\<open>current_bid\<close>, \<^verbatim>\<open>highest_bidder_id\<close>, \<^verbatim>\<open>total_bids\<close>,
  \<^verbatim>\<open>previous_bid\<close>, \<^verbatim>\<open>previous_bidder_id\<close>.
\<close>

definition acceptBid ::
  "hot_store \<Rightarrow> string \<Rightarrow> auction_hash \<Rightarrow> lua_number \<Rightarrow> string \<Rightarrow> int
    \<Rightarrow> place_bid_result \<times> hot_store" where
  "acceptBid s auctionKey auction bidAmount bidderId currentTime =
    (let previousBid = currentBid auction;
         previousBidder = highest_bidder_id auction;
         totalBids = (case total_bids auction of Some n \<Rightarrow> n | None \<Rightarrow> 0) + 1;
         auction' = auction\<lparr>current_bid := Some (tostring bidAmount),
                              highest_bidder_id := Some bidderId,
                              total_bids := Some totalBids\<rparr>;
         bidData = \<lparr>bd_bidder_id = bidderId, bd_amount = tostring bidAmount,
                    bd_time = currentTime, bd_previous_bid = tostring previousBid\<rparr>;
         bidsKey = auctionKey @ '':bids'';
         s' = s\<lparr>hashes := (hashes s)(auctionKey \<mapsto> auction'),
                bids_zset := (bids_zset s)
                   (bidsKey := (bids_zset s bidsKey)(bidData \<mapsto> bidAmount)),
                expire_at := (expire_at s)(bidsKey \<mapsto> end_time auction + 86400)\<rparr>
     in (BidPlaced (auction_id auction) (tostring bidAmount) bidderId totalBids
           (tostring previousBid)
           (case previousBidder of Some b \<Rightarrow> b | None \<Rightarrow> ''none''), s'))"

text \<open>
  \<open>placeBid s auctionKey amountArg bidderId currentTime incrementArg\<close>:
  \<^verbatim>\<open>KEYS[1]\<close>, then \<^verbatim>\<open>ARGV[1..4]\<close>. \<open>BidTooLow\<close> carries \<^verbatim>\<open>auction_id\<close>,
  \<^verbatim>\<open>current_bid\<close>, \<^verbatim>\<open>minimum_bid\<close>, \<^verbatim>\<open>your_bid\<close>, \<^verbatim>\<open>is_first_bid\<close>. A minimum
  that is NaN makes the test \<^verbatim>\<open>bidAmount < minimumBid\<close> false.
\<close>

definition placeBid ::
  "hot_store \<Rightarrow> string \<Rightarrow> lua_number option \<Rightarrow> string \<Rightarrow> int \<Rightarrow> lua_number option
    \<Rightarrow> place_bid_result \<times> hot_store" where
  "placeBid s auctionKey amountArg bidderId currentTime incrementArg =
    (case hashes s auctionKey of
       None \<Rightarrow> (AuctionNotFound, s)
     | Some auction \<Rightarrow>
        (case map_option tonumber amountArg of
           None \<Rightarrow> (InvalidBidAmount, s)
         | Some bidAmount \<Rightarrow>
            if lua_le bidAmount (Fin 0) then (InvalidBidAmount, s)
            else if status auction \<noteq> Active
              then (AuctionNotActive (auction_id auction) (status auction), s)
            else if currentTime \<ge> end_time auction
              then (AuctionHasEnded (auction_id auction) (end_time auction) currentTime, s)
            else if bidderId = seller_id auction
              then (SellerCannotBid (auction_id auction), s)
            else
              (case minimumBid auction incrementArg of
                 None \<Rightarrow> acceptBid s auctionKey auction bidAmount bidderId currentTime
               | Some minimum \<Rightarrow>
                  if lua_less bidAmount minimum
                    then (BidTooLow (auction_id auction) (tostring (currentBid auction))
                            (tostring minimum) (tostring bidAmount) (isFirstBid auction), s)
                    else acceptBid s auctionKey auction bidAmount bidderId currentTime)))"

subsection \<open>The finalize script\<close>

datatype finalize_result =
    AuctionFinalized string string "lua_number option" int int
  | EndedWithNoBids string int
  | FinalizeNotFound
  | NotEndedYet string int int int
  | AlreadyFinalized string auction_status

fun finalize_status :: "finalize_result \<Rightarrow> int" where
  "finalize_status (AuctionFinalized _ _ _ _ _) = 1"
| "finalize_status (EndedWithNoBids _ _) = 0"
| "finalize_status FinalizeNotFound = -1"
| "finalize_status (NotEndedYet _ _ _ _) = -2"
| "finalize_status (AlreadyFinalized _ _) = -3"

text \<open>
  \<open>AuctionFinalized\<close> carries \<^verbatim>\<open>auction_id\<close>, \<^verbatim>\<open>winner_id\<close>, \<^verbatim>\<open>winning_bid\<close>,
  \<^verbatim>\<open>total_bids\<close>, \<^verbatim>\<open>end_time\<close>. In Lua the empty string is true, so a
  \<^verbatim>\<open>highest_bidder_id\<close> of \<^verbatim>\<open>''\<close> counts as a winner.
\<close>

definition finalizeAuction ::
  "hot_store \<Rightarrow> string \<Rightarrow> int \<Rightarrow> finalize_result \<times> hot_store" where
  "finalizeAuction s auctionKey currentTime =
    (case hashes s auctionKey of
       None \<Rightarrow> (FinalizeNotFound, s)
     | Some auction \<Rightarrow>
        if status auction = Ended
          then (AlreadyFinalized (auction_id auction) (status auction), s)
        else if currentTime < end_time auction
          then (NotEndedYet (auction_id auction) (end_time auction) currentTime
                  (end_time auction - currentTime), s)
        else
          let winnerId = highest_bidder_id auction;
              winningBid = current_bid auction;
              totalBids = (case total_bids auction of Some n \<Rightarrow> n | None \<Rightarrow> 0);
              s' = s\<lparr>hashes := (hashes s)(auctionKey \<mapsto> auction\<lparr>status := Ended\<rparr>),
                     auctions_active := (auctions_active s)(auction_id auction := None),
                     expire_at := (expire_at s)(auctionKey \<mapsto> currentTime + 86400)\<rparr>
          in (case winnerId of
                Some w \<Rightarrow>
                  if totalBids > 0
                    then (AuctionFinalized (auction_id auction) w winningBid totalBids
                            (end_time auction), s')
                    else (EndedWithNoBids (auction_id auction) totalBids, s')
              | None \<Rightarrow> (EndedWithNoBids (auction_id auction) totalBids, s')))"

subsection \<open>extend-auction.lua\<close>

datatype extend_result =
    AuctionExtended string int int int int
  | NoExtensionNeeded string int int
  | ExtendNotFound
  | ExtendNotActive string auction_status

fun extend_status :: "extend_result \<Rightarrow> int" where
  "extend_status (AuctionExtended _ _ _ _ _) = 1"
| "extend_status (NoExtensionNeeded _ _ _) = 0"
| "extend_status ExtendNotFound = -1"
| "extend_status (ExtendNotActive _ _) = -2"

text \<open>
  \<open>AuctionExtended\<close> carries \<^verbatim>\<open>auction_id\<close>, \<^verbatim>\<open>old_end_time\<close>, \<^verbatim>\<open>new_end_time\<close>,
  \<^verbatim>\<open>extended_by\<close>, \<^verbatim>\<open>time_remaining\<close>; \<open>NoExtensionNeeded\<close> carries
  \<^verbatim>\<open>auction_id\<close>, \<^verbatim>\<open>end_time\<close>, \<^verbatim>\<open>time_remaining\<close>.
\<close>

definition extendAuction ::
  "hot_store \<Rightarrow> string \<Rightarrow> int \<Rightarrow> int \<Rightarrow> int \<Rightarrow> extend_result \<times> hot_store" where
  "extendAuction s auctionKey currentTime extensionThreshold extensionDuration =
    (case hashes s auctionKey of
       None \<Rightarrow> (ExtendNotFound, s)
     | Some auction \<Rightarrow>
        if status auction \<noteq> Active
          then (ExtendNotActive (auction_id auction) (status auction), s)
        else
          let endTime = end_time auction;
              timeRemaining = endTime - currentTime
          in
          if timeRemaining > 0 \<and> timeRemaining \<le> extensionThreshold then
            let newEndTime = endTime + extensionDuration;
                s' = s\<lparr>hashes := (hashes s)(auctionKey \<mapsto> auction\<lparr>end_time := newEndTime\<rparr>),
                       auctions_active := (auctions_active s)(auction_id auction \<mapsto> newEndTime),
                       expire_at := (expire_at s)(auctionKey \<mapsto> newEndTime + 86400)\<rparr>
            in (AuctionExtended (auction_id auction) endTime newEndTime extensionDuration
                  timeRemaining, s')
          else (NoExtensionNeeded (auction_id auction) endTime timeRemaining, s))"

section \<open>The specification's primitive P1, from its words\<close>


fun exact_add :: "lua_number \<Rightarrow> lua_number \<Rightarrow> lua_number" where
  "exact_add (Fin a) (Fin b) = Fin (a + b)"
| "exact_add (Fin a) y = y"
| "exact_add x y = x"






definition P1_totalBids :: "auction_hash \<Rightarrow> int" where
  "P1_totalBids a = (case total_bids a of Some n \<Rightarrow> n | None \<Rightarrow> 0)"

definition P1_unset :: "string option \<Rightarrow> bool" where
  "P1_unset b = (b = None \<or> b = Some [])"














section \<open>Concrete stores\<close>

text \<open>
  Scenario S1 of the specification: starting price 100.00, increment 5.00, end time
  1000, no bid yet (the current bid is the starting price, the highest bidder the empty
  string that \<^verbatim>\<open>loadAuctionToRedis\<close> writes for none); and the same auction after U1's
  first bid of 100.00.
\<close>

definition auction_S1 :: auction_hash where
  "auction_S1 = \<lparr>auction_id = ''A'', seller_id = ''seller'', starting_price = 100,
     current_bid = Some (Fin 100), bid_increment = Some 5, highest_bidder_id = Some [],
     total_bids = Some 0, end_time = 1000, status = Active\<rparr>"

definition auction_S1_bid :: auction_hash where
  "auction_S1_bid = auction_S1\<lparr>highest_bidder_id := Some ''U1'', total_bids := Some 1\<rparr>"

definition store_of :: "auction_hash \<Rightarrow> hot_store" where
  "store_of a = \<lparr>hashes = [''auction:A'' \<mapsto> a], bids_zset = (\<lambda>k. Map.empty),
     auctions_active = [auction_id a \<mapsto> end_time a], expire_at = Map.empty\<rparr>"



section \<open>Sequences of calls\<close>

text \<open>
  A sequence of calls on one key runs each script on the store the call before left;
  the trace lists, call by call, the reply and the store after it.
\<close>

fun finalize_calls :: "hot_store \<Rightarrow> string \<Rightarrow> int list \<Rightarrow> (finalize_result \<times> hot_store) list" where
  "finalize_calls s auctionKey [] = []"
| "finalize_calls s auctionKey (t # ts) =
    (let r = finalizeAuction s auctionKey t in r # finalize_calls (snd r) auctionKey ts)"

text \<open>The two replies of the finalize script that follow its writes.\<close>

definition finalize_succeeded :: "finalize_result \<Rightarrow> bool" where
  "finalize_succeeded r = (finalize_status r = 1 \<or> finalize_status r = 0)"

text \<open>An amount that the script reads as a number above 0.\<close>

definition valid_amount :: "lua_number option \<Rightarrow> bool" where
  "valid_amount amountArg =
    (case amountArg of Some x \<Rightarrow> lua_less (Fin 0) (tonumber x) | None \<Rightarrow> False)"

definition auction_S1_ended :: auction_hash where
  "auction_S1_ended = auction_S1_bid\<lparr>status := Ended\<rparr>"

text \<open>One call of \<open>placeBid\<close>: \<^verbatim>\<open>ARGV[1..4]\<close>.\<close>

record bid_call =
  bc_amount :: "lua_number option"
  bc_bidder :: string
  bc_time :: int
  bc_hint :: "lua_number option"

fun placeBid_calls ::
  "hot_store \<Rightarrow> string \<Rightarrow> bid_call list \<Rightarrow> (place_bid_result \<times> hot_store) list" where
  "placeBid_calls s auctionKey [] = []"
| "placeBid_calls s auctionKey (c # cs) =
    (let r = placeBid s auctionKey (bc_amount c) (bc_bidder c) (bc_time c) (bc_hint c)
     in r # placeBid_calls (snd r) auctionKey cs)"

text \<open>The amount of an accepted bid, as the reply gives it in \<^verbatim>\<open>current_bid\<close>.\<close>

fun accepted_amount :: "place_bid_result \<Rightarrow> lua_number option" where
  "accepted_amount (BidPlaced _ amount _ _ _ _) = Some amount"
| "accepted_amount _ = None"

text \<open>The accepted amounts of a trace, in commit order.\<close>

definition accepted_amounts :: "(place_bid_result \<times> hot_store) list \<Rightarrow> lua_number list" where
  "accepted_amounts tr = List.map_filter (\<lambda>r. accepted_amount (fst r)) tr"

text \<open>
  The current bid of the auction at a key, store by store, over the stores in which
  the auction has a bid.
\<close>

definition bid_exists :: "auction_hash \<Rightarrow> lua_number option" where
  "bid_exists a = (if P1_unset (highest_bidder_id a) then None else current_bid a)"

text \<open>The finite current bid of a record that has a bid, as a list of at most one.\<close>

definition floor_bid :: "auction_hash \<Rightarrow> rat list" where
  "floor_bid a = (case bid_exists a of Some (Fin c) \<Rightarrow> [c] | _ \<Rightarrow> [])"

definition currentBids :: "string \<Rightarrow> hot_store list \<Rightarrow> lua_number list" where
  "currentBids auctionKey sts =
    List.map_filter (\<lambda>st. Option.bind (hashes st auctionKey) bid_exists) sts"

text \<open>
  The monotonic price invariant for a sequence of calls from store \<open>s\<close>, for the
  increment \<open>inc\<close>, in exact arithmetic: accepted amounts strictly increasing, each
  at least its predecessor plus \<open>inc\<close>, and the current bid never decreasing once
  bids exist.
\<close>

definition monotonic_price :: "hot_store \<Rightarrow> string \<Rightarrow> rat \<Rightarrow> bid_call list \<Rightarrow> bool" where
  "monotonic_price s auctionKey inc calls =
    (let tr = placeBid_calls s auctionKey calls in
       sorted_wrt lua_less (accepted_amounts tr)
     \<and> successively (\<lambda>x y. lua_le (exact_add x (Fin inc)) y) (accepted_amounts tr)
     \<and> sorted_wrt lua_le (currentBids auctionKey (s # map snd tr)))"

text \<open>
  The amounts of money of the cold store, whose columns are \<^verbatim>\<open>DECIMAL(12, 2)\<close>: two
  fractional digits and a magnitude below \<open>10 ^ 10\<close>.
\<close>

definition decimal_12_2 :: "rat \<Rightarrow> bool" where
  "decimal_12_2 x = (of_int \<lfloor>x * 100\<rfloor> = x * 100 \<and> \<bar>x\<bar> < 10 ^ 10)"

text \<open>
  An argument that is no number or such an amount; an increment hint that is moreover
  not positive or at least \<open>inc\<close>; a record whose current bid, when it has a bid, is
  such an amount.
\<close>

fun decimal_amount :: "lua_number option \<Rightarrow> bool" where
  "decimal_amount None = True"
| "decimal_amount (Some (Fin x)) = decimal_12_2 x"
| "decimal_amount (Some _) = False"

fun hint_respects :: "rat \<Rightarrow> lua_number option \<Rightarrow> bool" where
  "hint_respects inc None = True"
| "hint_respects inc (Some (Fin h)) = (decimal_12_2 h \<and> (h \<le> 0 \<or> inc \<le> h))"
| "hint_respects inc (Some _) = False"

fun decimal_stored :: "lua_number option \<Rightarrow> bool" where
  "decimal_stored (Some (Fin x)) = decimal_12_2 x"
| "decimal_stored _ = False"

definition decimal_current_bid :: "auction_hash \<Rightarrow> bool" where
  "decimal_current_bid a = (P1_unset (highest_bidder_id a) \<or> decimal_stored (current_bid a))"

definition bid :: "rat \<Rightarrow> string \<Rightarrow> int \<Rightarrow> lua_number option \<Rightarrow> bid_call" where
  "bid amount bidderId serverTime incrementHint =
    \<lparr>bc_amount = Some (Fin amount), bc_bidder = bidderId, bc_time = serverTime,
     bc_hint = incrementHint\<rparr>"

text \<open>
  Scenarios S1 and S2 of the specification as calls: U1 bids 100.00 at 900, then U2 and
  U3 both bid 105.00 at 910.
\<close>

text \<open>
  Three runs on the auction of scenario S1: a second bid with an increment hint of 1,
  a first bid by the bidder with the empty id, and two bids of \<open>10 ^ 17\<close>.
\<close>

definition calls_hint :: "bid_call list" where
  "calls_hint = [bid 100 ''U1'' 900 None, bid 101 ''U2'' 910 (Some (Fin 1))]"

definition calls_empty_bidder :: "bid_call list" where
  "calls_empty_bidder = [bid 100 [] 900 None, bid 100 ''U2'' 910 None]"

definition calls_large :: "bid_call list" where
  "calls_large = [bid 100000000000000000 ''U1'' 900 None,
     bid 100000000000000000 ''U2'' 910 None]"

definition calls_S2 :: "bid_call list" where
  "calls_S2 = [bid 100 ''U1'' 900 None, bid 105 ''U2'' 910 None, bid 105 ''U3'' 910 None]"

definition auction_S2 :: auction_hash where
  "auction_S2 = auction_S1\<lparr>current_bid := Some (Fin 105), highest_bidder_id := Some ''U2'',
     total_bids := Some 2\<rparr>"

section \<open>The cold store and its repositories\<close>

text \<open>
  The relational store of the migration (\<^verbatim>\<open>users\<close>, \<^verbatim>\<open>auctions\<close>, \<^verbatim>\<open>bids\<close>), with the
  columns the bidding path reads or writes. Times are epoch milliseconds. \<open>None\<close> in
  a nullable column is \<^verbatim>\<open>NULL\<close>. The primary key of \<^verbatim>\<open>auctions\<close> is the key of the map;
  the primary key of \<^verbatim>\<open>bids\<close> is generated by the database for every inserted row
  (\<^verbatim>\<open>DEFAULT uuid_generate_v4()\<close>) and is modelled by the number of rows inserted
  before it, the table being append-only.
\<close>

record cold_auction =
  ca_seller_id :: string
  ca_starting_price :: rat
  ca_current_bid :: "rat option"
  ca_bid_increment :: rat
  ca_highest_bidder_id :: "string option"
  ca_total_bids :: "int option"
  ca_start_time :: int
  ca_end_time :: int
  ca_status :: auction_status

record cold_bid =
  cb_id :: nat
  cb_auction_id :: string
  cb_bidder_id :: string
  cb_amount :: rat
  cb_bid_time :: int
  cb_previous_bid :: "rat option"
  cb_is_winning :: bool
  cb_ip_address :: "string option"
  cb_user_agent :: "string option"

record cold_store =
  users :: "string set"
  auctions :: "string \<rightharpoonup> cold_auction"
  bids :: "cold_bid list"

text \<open>
  What a query can throw: the database's error classes, and the \<^verbatim>\<open>TypeError\<close> of a
  call to a method that the repository does not have.
\<close>

datatype db_error =
    UniqueViolation
  | ForeignKeyViolation
  | CheckViolation
  | SyntaxError
  | TypeError

subsection \<open>\<^verbatim>\<open>BidRepository.create\<close>\<close>

text \<open>
  The \<^verbatim>\<open>INSERT INTO bids\<close>: the checks \<^verbatim>\<open>positive_bid_amount\<close> and
  \<^verbatim>\<open>no_self_bid_check\<close> of the table as the migration writes them, then the two
  foreign keys. No column but the generated \<^verbatim>\<open>id\<close> is unique, so the insert never
  meets a unique violation. \<^verbatim>\<open>x || null\<close> turns an empty string into \<^verbatim>\<open>null\<close>.
\<close>

record bid_values =
  bv_auction_id :: string
  bv_bidder_id :: string
  bv_amount :: rat
  bv_bid_time :: int
  bv_previous_bid :: "rat option"
  bv_is_winning :: bool
  bv_ip_address :: "string option"
  bv_user_agent :: "string option"

definition or_null :: "string option \<Rightarrow> string option" where
  "or_null x = (if x = Some [] then None else x)"

definition BidRepository_create :: "cold_store \<Rightarrow> bid_values \<Rightarrow> db_error + (cold_bid \<times> cold_store)" where
  "BidRepository_create c bidData =
    (if \<not> bv_amount bidData > 0 then Inl CheckViolation
     else if (case auctions c (bv_auction_id bidData) of
                None \<Rightarrow> False | Some a \<Rightarrow> ca_seller_id a = bv_bidder_id bidData)
       then Inl CheckViolation
     else if auctions c (bv_auction_id bidData) = None then Inl ForeignKeyViolation
     else if bv_bidder_id bidData \<notin> users c then Inl ForeignKeyViolation
     else
       let row = \<lparr>cb_id = length (bids c),
                  cb_auction_id = bv_auction_id bidData,
                  cb_bidder_id = bv_bidder_id bidData,
                  cb_amount = bv_amount bidData,
                  cb_bid_time = bv_bid_time bidData,
                  cb_previous_bid = bv_previous_bid bidData,
                  cb_is_winning = bv_is_winning bidData,
                  cb_ip_address = or_null (bv_ip_address bidData),
                  cb_user_agent = or_null (bv_user_agent bidData)\<rparr>
       in Inr (row, c\<lparr>bids := bids c @ [row]\<rparr>))"

subsection \<open>\<^verbatim>\<open>AuctionRepository.findById\<close> and \<^verbatim>\<open>AuctionRepository.update\<close>\<close>

text \<open>The \<^verbatim>\<open>SELECT\<close> joins the seller's row of \<^verbatim>\<open>users\<close>.\<close>

definition AuctionRepository_findById :: "cold_store \<Rightarrow> string \<Rightarrow> cold_auction option" where
  "AuctionRepository_findById c auctionId =
    (case auctions c auctionId of
       None \<Rightarrow> None
     | Some a \<Rightarrow> if ca_seller_id a \<in> users c then Some a else None)"

text \<open>
  The \<^verbatim>\<open>updates\<close> object: for every column, \<open>None\<close> when the object has no such key,
  else the value to set (itself \<open>None\<close> for \<^verbatim>\<open>null\<close> in a nullable column).
\<close>

record auction_updates =
  upd_current_bid :: "rat option option"
  upd_highest_bidder_id :: "string option option"
  upd_total_bids :: "int option"
  upd_end_time :: "int option"
  upd_status :: "auction_status option"

definition no_updates :: auction_updates where
  "no_updates = \<lparr>upd_current_bid = None, upd_highest_bidder_id = None,
     upd_total_bids = None, upd_end_time = None, upd_status = None\<rparr>"

text \<open>\<^verbatim>\<open>SET column = value\<close> for the keys of \<^verbatim>\<open>updates\<close>.\<close>

definition set_columns :: "auction_updates \<Rightarrow> cold_auction \<Rightarrow> cold_auction" where
  "set_columns updates a =
    a\<lparr>ca_current_bid := (case upd_current_bid updates of None \<Rightarrow> ca_current_bid a | Some v \<Rightarrow> v),
      ca_highest_bidder_id :=
        (case upd_highest_bidder_id updates of None \<Rightarrow> ca_highest_bidder_id a | Some v \<Rightarrow> v),
      ca_total_bids := (case upd_total_bids updates of None \<Rightarrow> ca_total_bids a | Some v \<Rightarrow> Some v),
      ca_end_time := (case upd_end_time updates of None \<Rightarrow> ca_end_time a | Some v \<Rightarrow> v),
      ca_status := (case upd_status updates of None \<Rightarrow> ca_status a | Some v \<Rightarrow> v)\<rparr>"

text \<open>
  The constraints of \<^verbatim>\<open>auctions\<close> that an update of these columns can break:
  \<^verbatim>\<open>valid_current_bid\<close>, \<^verbatim>\<open>valid_time_range\<close>, \<^verbatim>\<open>no_self_bid\<close> (a check that
  involves \<^verbatim>\<open>NULL\<close> passes).
\<close>

definition auction_checks :: "cold_auction \<Rightarrow> bool" where
  "auction_checks a =
    ((case ca_current_bid a of None \<Rightarrow> True | Some b \<Rightarrow> b \<ge> 0)
     \<and> ca_end_time a > ca_start_time a
     \<and> (case ca_highest_bidder_id a of None \<Rightarrow> True | Some h \<Rightarrow> ca_seller_id a \<noteq> h))"

text \<open>
  \<^verbatim>\<open>UPDATE auctions SET ... WHERE id = $n RETURNING *\<close>: the only condition of the
  statement is the id. An empty \<^verbatim>\<open>updates\<close> gives a statement with an empty
  \<^verbatim>\<open>SET\<close> list, a syntax error. The result is the updated row, or nothing when no row
  has the id.
\<close>

definition AuctionRepository_update ::
  "cold_store \<Rightarrow> string \<Rightarrow> auction_updates \<Rightarrow> db_error + (cold_auction option \<times> cold_store)" where
  "AuctionRepository_update c auctionId updates =
    (if updates = no_updates then Inl SyntaxError
     else
      (case auctions c auctionId of
         None \<Rightarrow> Inr (None, c)
       | Some a \<Rightarrow>
          let a' = set_columns updates a in
          if \<not> auction_checks a' then Inl CheckViolation
          else if (case ca_highest_bidder_id a' of None \<Rightarrow> False | Some h \<Rightarrow> h \<notin> users c)
            then Inl ForeignKeyViolation
          else Inr (Some a', c\<lparr>auctions := (auctions c)(auctionId \<mapsto> a')\<rparr>)))"

section \<open>The background workers\<close>

text \<open>
  \<^verbatim>\<open>bid-persistence.worker.js\<close>. A job either returns a result with a status, or
  throws, which makes the queue retry it.
\<close>

datatype job_outcome = JobThrew db_error | JobReturned string

record persist_bid_job =
  pj_auctionId :: string
  pj_bidderId :: string
  pj_amount :: rat
  pj_currentTime :: int
  pj_previousBid :: "rat option"
  pj_totalBids :: "int option"
  pj_ipAddress :: "string option"
  pj_userAgent :: "string option"
  pj_bidId :: "string option"

text \<open>
  \<open>processBidPersistence c job now\<close>, \<open>now\<close> being \<^verbatim>\<open>Date.now()\<close>. With a
  \<^verbatim>\<open>bidId\<close> the job calls \<^verbatim>\<open>bidRepository.findById\<close>, which \<^verbatim>\<open>BidRepository\<close>
  does not define: the call throws a \<^verbatim>\<open>TypeError\<close>. The two statements are not in
  one transaction: a failing update leaves the inserted row.
\<close>

definition processBidPersistence :: "cold_store \<Rightarrow> persist_bid_job \<Rightarrow> int \<Rightarrow> job_outcome \<times> cold_store" where
  "processBidPersistence c job now =
    (let catch = (\<lambda>error c'. if error = UniqueViolation then (JobReturned ''duplicate'', c')
                              else (JobThrew error, c'))
     in
     if (case pj_bidId job of None \<Rightarrow> False | Some i \<Rightarrow> i \<noteq> []) then catch TypeError c
     else
      (case BidRepository_create c
              \<lparr>bv_auction_id = pj_auctionId job,
               bv_bidder_id = pj_bidderId job,
               bv_amount = pj_amount job,
               bv_bid_time = (if pj_currentTime job \<noteq> 0 then pj_currentTime job * 1000 else now),
               bv_previous_bid = pj_previousBid job,
               bv_is_winning = True,
               bv_ip_address = pj_ipAddress job,
               bv_user_agent = pj_userAgent job\<rparr> of
         Inl error \<Rightarrow> catch error c
       | Inr (inserted, c1) \<Rightarrow>
          (case AuctionRepository_update c1 (pj_auctionId job)
                  (no_updates\<lparr>upd_current_bid := Some (Some (pj_amount job)),
                     upd_highest_bidder_id := Some (Some (pj_bidderId job)),
                     upd_total_bids := Some (case pj_totalBids job of None \<Rightarrow> 0 | Some n \<Rightarrow> n)\<rparr>) of
             Inl error \<Rightarrow> catch error c1
           | Inr (_, c2) \<Rightarrow> (JobReturned ''persisted_all'', c2))))"

text \<open>
  The job of the auction-update queue as the worker reads it, with
  \<^verbatim>\<open>currentBid\<close>, \<^verbatim>\<open>highestBidderId\<close> and \<^verbatim>\<open>totalBids\<close> present.
\<close>

record auction_update_job =
  uj_auctionId :: string
  uj_currentBid :: rat
  uj_highestBidderId :: "string option"
  uj_totalBids :: int
  uj_endTime :: "int option"

definition processAuctionUpdate :: "cold_store \<Rightarrow> auction_update_job \<Rightarrow> job_outcome \<times> cold_store" where
  "processAuctionUpdate c job =
    (let updates = no_updates\<lparr>upd_current_bid := Some (Some (uj_currentBid job)),
                     upd_highest_bidder_id := Some (uj_highestBidderId job),
                     upd_total_bids := Some (uj_totalBids job)\<rparr>;
         updates = (case uj_endTime job of
                      Some e \<Rightarrow> updates\<lparr>upd_end_time := Some e\<rparr>
                    | None \<Rightarrow> updates)
     in
     (case AuctionRepository_update c (uj_auctionId job) updates of
        Inl error \<Rightarrow> (JobThrew error, c)
      | Inr (None, c') \<Rightarrow> (JobReturned ''not_found'', c')
      | Inr (Some auction, c') \<Rightarrow> (JobReturned ''updated'', c')))"

subsection \<open>Concrete cold stores and jobs\<close>

text \<open>
  The auction of scenario S1 in the cold store while it is active, and after its
  finalization was mirrored (U2 won with 105.00, two bids); the persist-bid job of U1's
  first bid, and a mirror job carrying the state after that bid.
\<close>

definition cold_row_S1 :: cold_auction where
  "cold_row_S1 = \<lparr>ca_seller_id = ''seller'', ca_starting_price = 100,
     ca_current_bid = Some 0, ca_bid_increment = 5, ca_highest_bidder_id = None,
     ca_total_bids = Some 0, ca_start_time = 0, ca_end_time = 1000000,
     ca_status = Active\<rparr>"

definition cold_S1 :: cold_store where
  "cold_S1 = \<lparr>users = {''seller'', ''U1'', ''U2'', ''U3''},
     auctions = [''A'' \<mapsto> cold_row_S1], bids = []\<rparr>"

definition cold_row_ended :: cold_auction where
  "cold_row_ended = cold_row_S1\<lparr>ca_current_bid := Some 105,
     ca_highest_bidder_id := Some ''U2'', ca_total_bids := Some 2, ca_status := Ended\<rparr>"

definition cold_ended :: cold_store where
  "cold_ended = cold_S1\<lparr>auctions := [''A'' \<mapsto> cold_row_ended]\<rparr>"

definition persist_job_U1 :: persist_bid_job where
  "persist_job_U1 = \<lparr>pj_auctionId = ''A'', pj_bidderId = ''U1'', pj_amount = 100,
     pj_currentTime = 900, pj_previousBid = Some 100, pj_totalBids = Some 1,
     pj_ipAddress = None, pj_userAgent = None, pj_bidId = None\<rparr>"

definition update_job_U1 :: auction_update_job where
  "update_job_U1 = \<lparr>uj_auctionId = ''A'', uj_currentBid = 100,
     uj_highestBidderId = Some ''U1'', uj_totalBids = 1, uj_endTime = None\<rparr>"

section \<open>The Bid Service and the Auction Service\<close>

text \<open>
  \<^verbatim>\<open>BidService\<close> and \<^verbatim>\<open>AuctionService.loadAuctionToRedis\<close> work on the hot store, the
  rate-limit keys (the keys \<^verbatim>\<open>rate_limit:bid:{bidderId}\<close> alive at the call; their
  expiry after one second is the store's), the cold store, the three job queues and
  the \<^verbatim>\<open>auction:bid_placed\<close> channel.
\<close>

datatype job_id =
    BidJobId string string int
  | AuctionUpdateJobId string int
  | FinalizeJobId string

record extension_data =
  ex_oldEndTime :: int
  ex_newEndTime :: int
  ex_extendedBy :: int

record bid_placed_message =
  bm_auctionId :: string
  bm_id :: int
  bm_amount :: rat
  bm_bidderId :: string
  bm_bidderUsername :: string
  bm_timestamp :: int
  bm_totalBids :: int
  bm_previousBid :: lua_number
  bm_extended :: bool
  bm_extensionData :: "extension_data option"

record system =
  hot :: hot_store
  rate_limit_keys :: "string set"
  cold :: cold_store
  bidPersistenceQueue :: "(job_id \<times> persist_bid_job) list"
  auctionUpdateQueue :: "(job_id \<times> string \<times> int) list"
  auctionFinalizationQueue :: "(job_id \<times> string \<times> int option) list"
  published :: "bid_placed_message list"

text \<open>A queue ignores a job whose id it already holds.\<close>

definition queue_add :: "job_id \<Rightarrow> 'a \<Rightarrow> (job_id \<times> 'a) list \<Rightarrow> (job_id \<times> 'a) list" where
  "queue_add jobId job queue =
    (if jobId \<in> fst ` set queue then queue else queue @ [(jobId, job)])"

text \<open>Every call of \<^verbatim>\<open>Date.now()\<close> is an input of its own, in milliseconds.\<close>

record clock_readings =
  t_placeBid :: int
  t_load :: int
  t_schedule :: int
  t_persist_job :: int
  t_update_job :: int
  t_publish :: int

subsection \<open>\<^verbatim>\<open>scheduleAuctionFinalization\<close> and \<^verbatim>\<open>loadAuctionToRedis\<close>\<close>

definition scheduleAuctionFinalization :: "system \<Rightarrow> string \<Rightarrow> int \<Rightarrow> int \<Rightarrow> system" where
  "scheduleAuctionFinalization sys auctionId endTime now =
    (let delay = endTime - now in
     if delay \<le> 0
       then sys\<lparr>auctionFinalizationQueue :=
              queue_add (FinalizeJobId auctionId) (auctionId, None) (auctionFinalizationQueue sys)\<rparr>
       else sys\<lparr>auctionFinalizationQueue :=
              queue_add (FinalizeJobId auctionId) (auctionId, Some delay)
                (auctionFinalizationQueue sys)\<rparr>)"

text \<open>
  \<open>loadAuctionToRedis sys auctionId auction clock\<close>, for the row \<open>auction\<close> with id
  \<open>auctionId\<close>. The numeric columns come from the database as strings, so
  \<^verbatim>\<open>auction.current_bid || auction.starting_price\<close> takes the starting price only for
  \<^verbatim>\<open>NULL\<close>. \<^verbatim>\<open>EXPIRE\<close> counts from the store's clock, taken to show the second of
  \<^verbatim>\<open>t_load\<close>.
\<close>

definition loadAuctionToRedis :: "system \<Rightarrow> string \<Rightarrow> cold_auction \<Rightarrow> clock_readings \<Rightarrow> system" where
  "loadAuctionToRedis sys auctionId auction clock =
    (let auctionKey = ''auction:'' @ auctionId;
         endTime = ca_end_time auction div 1000;
         currentTime = t_load clock div 1000;
         ttl = endTime - currentTime
     in
     if ttl \<le> 0 then sys
     else
       let h = \<lparr>auction_id = auctionId,
                seller_id = ca_seller_id auction,
                starting_price = ca_starting_price auction,
                current_bid = Some (Fin (case ca_current_bid auction of
                                      Some b \<Rightarrow> b | None \<Rightarrow> ca_starting_price auction)),
                bid_increment = Some (ca_bid_increment auction),
                highest_bidder_id = Some (case ca_highest_bidder_id auction of
                                            Some b \<Rightarrow> b | None \<Rightarrow> []),
                total_bids = Some (case ca_total_bids auction of Some n \<Rightarrow> n | None \<Rightarrow> 0),
                end_time = endTime,
                status = ca_status auction\<rparr>;
           expiryTTL = ttl + 86400;
           sys1 = sys\<lparr>hot := (hot sys)
                    \<lparr>hashes := (hashes (hot sys))(auctionKey \<mapsto> h),
                     expire_at := (expire_at (hot sys))(auctionKey \<mapsto> currentTime + expiryTTL),
                     auctions_active := (auctions_active (hot sys))(auctionId \<mapsto> endTime)\<rparr>\<rparr>
       in scheduleAuctionFinalization sys1 auctionId (ca_end_time auction) (t_schedule clock))"

subsection \<open>\<^verbatim>\<open>BidService\<close>\<close>

record bid_request =
  rq_auctionId :: string
  rq_bidderId :: string
  rq_username :: "string option"
  rq_amount :: rat
  rq_ipAddress :: "string option"
  rq_userAgent :: "string option"

record bid_info =
  bi_amount :: rat
  bi_bidderId :: string
  bi_bidderUsername :: string
  bi_timestamp :: int
  bi_totalBids :: int

text \<open>
  What \<^verbatim>\<open>placeBid\<close> of the service does: it throws an \<^verbatim>\<open>AppError\<close> (with its code),
  returns a failure (with \<^verbatim>\<open>errorCode\<close> and the script's reply) or returns a success.
\<close>

datatype service_result =
    ServiceThrew string
  | ServiceRejected string place_bid_result
  | ServiceAccepted bid_info bool "extension_data option"

definition getErrorCode :: "int \<Rightarrow> string" where
  "getErrorCode st =
    (if st = 0 then ''BID_TOO_LOW''
     else if st = -1 then ''AUCTION_ENDED''
     else if st = -2 then ''AUCTION_NOT_FOUND''
     else if st = -3 then ''AUCTION_NOT_ACTIVE''
     else if st = -4 then ''SELLER_CANNOT_BID''
     else if st = -5 then ''INVALID_BID_AMOUNT''
     else ''UNKNOWN_ERROR'')"

definition checkAndExtendAuction ::
  "system \<Rightarrow> string \<Rightarrow> int \<Rightarrow> clock_readings \<Rightarrow> (bool \<times> extension_data option) \<times> system" where
  "checkAndExtendAuction sys auctionId currentTime clock =
    (let extensionThreshold = 30;
         extensionDuration = 30;
         (result, hot') = extendAuction (hot sys) (''auction:'' @ auctionId) currentTime
                            extensionThreshold extensionDuration;
         sys1 = sys\<lparr>hot := hot'\<rparr>
     in
     (case result of
        AuctionExtended _ old_end_time new_end_time extended_by _ \<Rightarrow>
          ((True, Some \<lparr>ex_oldEndTime = old_end_time * 1000,
                        ex_newEndTime = new_end_time * 1000,
                        ex_extendedBy = extended_by\<rparr>),
           sys1\<lparr>auctionUpdateQueue :=
              queue_add (AuctionUpdateJobId auctionId (t_update_job clock))
                (auctionId, new_end_time * 1000) (auctionUpdateQueue sys1)\<rparr>)
      | _ \<Rightarrow> ((False, None), sys1)))"

text \<open>
  The job carries the \<^verbatim>\<open>previous_bid\<close> string of the script's reply, which the worker
  reads with \<^verbatim>\<open>parseFloat\<close>. The cold store of this development holds finite amounts
  only: a previous bid that is not finite, which \<^verbatim>\<open>parseFloat\<close> does not read, is
  passed on as none.
\<close>

fun job_previousBid :: "lua_number \<Rightarrow> rat option" where
  "job_previousBid (Fin x) = Some x"
| "job_previousBid _ = None"

text \<open>
  \<open>BidService_placeBid sys bidData clock\<close>. The amount is a finite number, passed to
  the script as its decimal string; the first call passes the empty string as
  increment, which \<^verbatim>\<open>tonumber\<close> reads as \<^verbatim>\<open>nil\<close>; after a miss and the hydration, the
  one retry passes the increment of the cold row.
\<close>

definition BidService_placeBid ::
  "system \<Rightarrow> bid_request \<Rightarrow> clock_readings \<Rightarrow> service_result \<times> system" where
  "BidService_placeBid sys bidData clock =
    (let auctionId = rq_auctionId bidData;
         bidderId = rq_bidderId bidData;
         amount = rq_amount bidData;
         currentTime = t_placeBid clock div 1000;
         rateLimitKey = ''rate_limit:bid:'' @ bidderId
     in
     if rateLimitKey \<in> rate_limit_keys sys then (ServiceThrew ''RATE_LIMIT_EXCEEDED'', sys)
     else
      let sys1 = sys\<lparr>rate_limit_keys := insert rateLimitKey (rate_limit_keys sys)\<rparr>;
          (result1, hot1) = placeBid (hot sys1) (''auction:'' @ auctionId)
                              (Some (Fin amount)) bidderId currentTime None;
          sys2 = sys1\<lparr>hot := hot1\<rparr>
      in
      (case (if place_bid_status result1 = -2 then
               (case AuctionRepository_findById (cold sys2) auctionId of
                  None \<Rightarrow> Inl ''AUCTION_NOT_FOUND''
                | Some auction \<Rightarrow>
                   let loaded = loadAuctionToRedis sys2 auctionId auction clock;
                       (result2, hot2) = placeBid (hot loaded) (''auction:'' @ auctionId)
                                           (Some (Fin amount)) bidderId currentTime
                                           (Some (Fin (ca_bid_increment auction)))
                   in Inr (result2, loaded\<lparr>hot := hot2\<rparr>))
             else Inr (result1, sys2)) of
         Inl code \<Rightarrow> (ServiceThrew code, sys2)
       | Inr (result, sys3) \<Rightarrow>
       (case result of
          BidPlaced _ _ _ totalBids previousBid _ \<Rightarrow>
            let timestamp = currentTime * 1000;
                sys4 = sys3\<lparr>bidPersistenceQueue :=
                         queue_add (BidJobId auctionId bidderId (t_persist_job clock))
                           \<lparr>pj_auctionId = auctionId, pj_bidderId = bidderId,
                            pj_amount = amount, pj_currentTime = currentTime,
                            pj_previousBid = job_previousBid previousBid,
                            pj_totalBids = Some totalBids,
                            pj_ipAddress = rq_ipAddress bidData,
                            pj_userAgent = rq_userAgent bidData,
                            pj_bidId = None\<rparr>
                           (bidPersistenceQueue sys3)\<rparr>;
                (extensionResult, sys5) = checkAndExtendAuction sys4 auctionId currentTime clock;
                username = (case rq_username bidData of
                              None \<Rightarrow> ''User'' | Some u \<Rightarrow> if u = [] then ''User'' else u);
                sys6 = sys5\<lparr>published := published sys5 @
                         [\<lparr>bm_auctionId = auctionId, bm_id = t_publish clock,
                           bm_amount = amount, bm_bidderId = bidderId,
                           bm_bidderUsername = username, bm_timestamp = timestamp,
                           bm_totalBids = totalBids, bm_previousBid = previousBid,
                           bm_extended = fst extensionResult,
                           bm_extensionData = snd extensionResult\<rparr>]\<rparr>
            in (ServiceAccepted
                  \<lparr>bi_amount = amount, bi_bidderId = bidderId, bi_bidderUsername = username,
                   bi_timestamp = timestamp, bi_totalBids = totalBids\<rparr>
                  (fst extensionResult) (snd extensionResult), sys6)
        | _ \<Rightarrow> (ServiceRejected (getErrorCode (place_bid_status result)) result, sys3))))"

subsection \<open>The reply of the \<^verbatim>\<open>BID_PLACED\<close> handler\<close>

text \<open>
  What the gateway's \<^verbatim>\<open>BID_PLACED\<close> handler emits to the bidder's socket for the
  outcome of the service call: \<^verbatim>\<open>BID_ACCEPTED\<close> with the bid, \<^verbatim>\<open>BID_REJECTED\<close> with the
  service's error code, or, when the service threw, \<^verbatim>\<open>BID_REJECTED\<close> with
  \<^verbatim>\<open>BID_FAILED\<close>.
\<close>

datatype bid_reply =
    BID_ACCEPTED string bid_info
  | BID_REJECTED string string "place_bid_result option"

fun bid_placed_reply :: "string \<Rightarrow> service_result \<Rightarrow> bid_reply" where
  "bid_placed_reply auctionId (ServiceAccepted b _ _) = BID_ACCEPTED auctionId b"
| "bid_placed_reply auctionId (ServiceRejected errorCode details) =
     BID_REJECTED auctionId errorCode (Some details)"
| "bid_placed_reply auctionId (ServiceThrew _) = BID_REJECTED auctionId ''BID_FAILED'' None"

text \<open>
  The cold store of scenario S1 at a time when the auction's end (1000 s) has passed:
  U1 bids 150.00 at 1200 s, and the hot store holds no record of the auction.
\<close>

definition empty_hot :: hot_store where
  "empty_hot = \<lparr>hashes = Map.empty, bids_zset = (\<lambda>k. Map.empty),
     auctions_active = Map.empty, expire_at = Map.empty\<rparr>"

definition system_evicted :: system where
  "system_evicted = \<lparr>hot = empty_hot, rate_limit_keys = {}, cold = cold_S1,
     bidPersistenceQueue = [], auctionUpdateQueue = [], auctionFinalizationQueue = [],
     published = []\<rparr>"

definition request_U1 :: bid_request where
  "request_U1 = \<lparr>rq_auctionId = ''A'', rq_bidderId = ''U1'', rq_username = Some ''u1'',
     rq_amount = 150, rq_ipAddress = None, rq_userAgent = None\<rparr>"

definition clock_late :: clock_readings where
  "clock_late = \<lparr>t_placeBid = 1200000, t_load = 1200003, t_schedule = 1200004,
     t_persist_job = 1200005, t_update_job = 1200006, t_publish = 1200007\<rparr>"

section \<open>The real-time gateway\<close>

text \<open>
  \<^verbatim>\<open>initializeSocketServer\<close>: the authentication middleware and the connection
  handler. \<^verbatim>\<open>jwt.verify\<close> is a parameter: it gives the decoded user id and user name
  of a token, or nothing when it throws.
\<close>

record handshake =
  hs_auth_token :: "string option"
  hs_authorization :: "string option"

record socket =
  sk_id :: string
  sk_userId :: string
  sk_username :: string
  sk_joinedAuctions :: "string list"

text \<open>\<^verbatim>\<open>split(' ')\<close>.\<close>

fun split_space :: "string \<Rightarrow> string list" where
  "split_space [] = [[]]"
| "split_space (c # cs) =
    (if c = CHR '' '' then [] # split_space cs
     else (case split_space cs of w # ws \<Rightarrow> (c # w) # ws | [] \<Rightarrow> [[c]]))"

text \<open>
  \<^verbatim>\<open>socket.handshake.auth.token || socket.handshake.headers.authorization?.split(' ')[1]\<close>;
  the result is \<open>None\<close> when it is \<^verbatim>\<open>undefined\<close> or empty.
\<close>

definition handshake_token :: "handshake \<Rightarrow> string option" where
  "handshake_token hs =
    (let truthy = (\<lambda>t. case t of None \<Rightarrow> False | Some v \<Rightarrow> v \<noteq> []);
         second = (case hs_authorization hs of
                     None \<Rightarrow> None
                   | Some header \<Rightarrow>
                      (case split_space header of _ # t # _ \<Rightarrow> Some t | _ \<Rightarrow> None))
     in if truthy (hs_auth_token hs) then hs_auth_token hs
        else if truthy second then second else None)"

definition authenticate ::
  "(string \<Rightarrow> (string \<times> string) option) \<Rightarrow> string \<Rightarrow> handshake \<Rightarrow> string + socket" where
  "authenticate jwt_verify socketId hs =
    (case handshake_token hs of
       None \<Rightarrow> Inl ''Authentication error: Token required''
     | Some token \<Rightarrow>
        (case jwt_verify token of
           None \<Rightarrow> Inl ''Authentication error: Invalid token''
         | Some (userId, username) \<Rightarrow>
            Inr \<lparr>sk_id = socketId, sk_userId = userId, sk_username = username,
                 sk_joinedAuctions = []\<rparr>))"

text \<open>
  A message the server emits: to the socket itself (\<^verbatim>\<open>socket.emit\<close>) or to a room
  but for the socket (\<^verbatim>\<open>socket.to(room).emit\<close>), with the event name and the
  payload's fields.
\<close>

datatype json = JString string | JNumber int

datatype recipient = ToSocket | ToRoomButSocket string

record outbound =
  ob_to :: recipient
  ob_event :: string
  ob_payload :: "(string \<times> json) list"

text \<open>
  The two \<^verbatim>\<open>connection\<close> callbacks, that of \<^verbatim>\<open>registerBidHandlers\<close> and that of
  \<^verbatim>\<open>initializeSocketServer\<close>, run for a socket the middleware has let through: they
  create the set of joined auctions and register the socket's listeners. Neither emits.
\<close>

definition on_connection :: "socket \<Rightarrow> socket \<times> outbound list" where
  "on_connection s = (s\<lparr>sk_joinedAuctions := []\<rparr>, [])"

definition connect ::
  "(string \<Rightarrow> (string \<times> string) option) \<Rightarrow> string \<Rightarrow> handshake
    \<Rightarrow> string + (socket \<times> outbound list)" where
  "connect jwt_verify socketId hs =
    (case authenticate jwt_verify socketId hs of
       Inl err \<Rightarrow> Inl err
     | Inr s \<Rightarrow> Inr (on_connection s))"

text \<open>
  The listeners of \<^verbatim>\<open>initializeSocketServer\<close>. \<open>rooms\<close> gives the socket ids in a
  room; a \<^verbatim>\<open>Set\<close> is the list of its elements in insertion order. At
  \<^verbatim>\<open>disconnect\<close> the socket has left its rooms. Joining and leaving a room are taken
  not to throw (the \<^verbatim>\<open>catch\<close> of the join listener would emit \<^verbatim>\<open>error\<close> with
  \<^verbatim>\<open>JOIN_FAILED\<close>).
\<close>

definition set_add :: "'a \<Rightarrow> 'a list \<Rightarrow> 'a list" where
  "set_add x xs = (if x \<in> set xs then xs else xs @ [x])"

datatype client_event =
    AuctionJoin "string option"
  | AuctionLeave "string option"
  | AuctionGetViewers "string option"
  | Disconnect

definition viewerCount :: "(string \<Rightarrow> string list) \<Rightarrow> string \<Rightarrow> json" where
  "viewerCount rooms roomName = JNumber (int (length (rooms roomName)))"

fun socket_on ::
  "(string \<Rightarrow> string list) \<Rightarrow> socket \<Rightarrow> client_event
    \<Rightarrow> (string \<Rightarrow> string list) \<times> socket \<times> outbound list" where
  "socket_on rooms s (AuctionJoin auctionId) =
    (case auctionId of
       None \<Rightarrow> (rooms, s,
          [\<lparr>ob_to = ToSocket, ob_event = ''error'',
            ob_payload = [(''code'', JString ''INVALID_AUCTION_ID''),
                          (''message'', JString ''Auction ID is required'')]\<rparr>])
     | Some a \<Rightarrow>
        if a = [] then (rooms, s,
          [\<lparr>ob_to = ToSocket, ob_event = ''error'',
            ob_payload = [(''code'', JString ''INVALID_AUCTION_ID''),
                          (''message'', JString ''Auction ID is required'')]\<rparr>])
        else
          let roomName = ''auction:'' @ a;
              rooms' = rooms(roomName := set_add (sk_id s) (rooms roomName));
              s' = s\<lparr>sk_joinedAuctions := set_add a (sk_joinedAuctions s)\<rparr>
          in (rooms', s',
              [\<lparr>ob_to = ToSocket, ob_event = ''auction:joined'',
                ob_payload = [(''auctionId'', JString a),
                              (''message'', JString ''Successfully joined auction room'')]\<rparr>,
               \<lparr>ob_to = ToRoomButSocket roomName, ob_event = ''auction:viewer_joined'',
                ob_payload = [(''auctionId'', JString a),
                              (''viewerCount'', viewerCount rooms' roomName)]\<rparr>]))"
| "socket_on rooms s (AuctionLeave auctionId) =
    (case auctionId of
       None \<Rightarrow> (rooms, s, [])
     | Some a \<Rightarrow>
        if a = [] then (rooms, s, [])
        else
          let roomName = ''auction:'' @ a;
              rooms' = rooms(roomName := removeAll (sk_id s) (rooms roomName));
              s' = s\<lparr>sk_joinedAuctions := removeAll a (sk_joinedAuctions s)\<rparr>
          in (rooms', s',
              [\<lparr>ob_to = ToSocket, ob_event = ''auction:left'',
                ob_payload = [(''auctionId'', JString a),
                              (''message'', JString ''Successfully left auction room'')]\<rparr>,
               \<lparr>ob_to = ToRoomButSocket roomName, ob_event = ''auction:viewer_left'',
                ob_payload = [(''auctionId'', JString a),
                              (''viewerCount'', viewerCount rooms' roomName)]\<rparr>]))"
| "socket_on rooms s (AuctionGetViewers auctionId) =
    (let roomName = ''auction:'' @ (case auctionId of None \<Rightarrow> ''undefined'' | Some a \<Rightarrow> a)
     in (rooms, s,
         [\<lparr>ob_to = ToSocket, ob_event = ''auction:viewer_count'',
           ob_payload = (case auctionId of None \<Rightarrow> [] | Some a \<Rightarrow> [(''auctionId'', JString a)])
                          @ [(''viewerCount'', viewerCount rooms roomName)]\<rparr>]))"
| "socket_on rooms s Disconnect =
    (let rooms' = (\<lambda>roomName. removeAll (sk_id s) (rooms roomName))
     in (rooms', s,
         map (\<lambda>a. \<lparr>ob_to = ToRoomButSocket (''auction:'' @ a), ob_event = ''auction:viewer_left'',
                    ob_payload = [(''auctionId'', JString a),
                                  (''viewerCount'', viewerCount rooms' (''auction:'' @ a))]\<rparr>)
           (sk_joinedAuctions s)))"

text \<open>A handshake with a bearer token that verifies, for user U1.\<close>

definition verify_U1 :: "string \<Rightarrow> (string \<times> string) option" where
  "verify_U1 token = (if token = ''token-U1'' then Some (''U1'', ''u1'') else None)"

definition handshake_U1 :: handshake where
  "handshake_U1 = \<lparr>hs_auth_token = Some ''token-U1'', hs_authorization = None\<rparr>"

section \<open>Rounding\<close>

text \<open>
  Facts about the two roundings: the error of a rounding to the nearest integer, the
  bounds of \<open>ilog\<close>, the error of \<open>binary64\<close> (relative on normal numbers, absolute
  on all), the values \<open>binary64\<close> and \<open>format_14g\<close> keep, and the rule by which a
  rounding is checked on a given number.
\<close>

lemma round_half_even_error: "\<bar>of_int (round_half_even x) - x\<bar> \<le> 1 / 2"
proof -
  have "of_int \<lfloor>x\<rfloor> \<le> x" "x < of_int \<lfloor>x\<rfloor> + 1" by linarith+
  then show ?thesis
    by (auto simp: round_half_even_def Let_def)
qed

lemma round_half_even_near:
  assumes "\<bar>x - of_int m\<bar> < 1 / 2"
  shows "round_half_even x = m"
proof -
  have "\<bar>of_int (round_half_even x) - x\<bar> \<le> 1 / 2" by (rule round_half_even_error)
  with assms have "\<bar>(of_int (round_half_even x) :: rat) - of_int m\<bar> < 1" by linarith
  then have "\<bar>of_int (round_half_even x - m) :: rat\<bar> < 1" by simp
  then have "\<bar>round_half_even x - m\<bar> < 1"
    by (metis of_int_abs of_int_less_1_iff)
  then show ?thesis by linarith
qed

lemma round_half_even_of_int: "round_half_even (of_int n) = n"
  by (rule round_half_even_near) simp


lemma ilog_bounds:
  assumes "1 < b" "0 < x"
  shows "of_nat b powi ilog b x \<le> x" and "x < of_nat b powi (ilog b x + 1)"
proof -
  obtain p q where pq: "quotient_of x = (p, q)" by (cases "quotient_of x")
  then have q: "0 < q" by (rule quotient_of_denom_pos)
  from pq have x: "x = of_int p / of_int q" by (rule quotient_of_div)
  with assms(2) q have p: "0 < p" by (simp add: zero_less_divide_iff)
  define P where "P = floorlog b (nat p)"
  define Q where "Q = floorlog b (nat q)"
  define B :: rat where "B = of_nat b"
  have B: "1 < B" using assms(1) by (simp add: B_def)
  from p assms(1) have P: "b ^ (P - 1) \<le> nat p" "nat p < b ^ P"
    using floorlog_bounds [of "nat p" b] by (simp_all add: P_def)
  from q assms(1) have Q: "b ^ (Q - 1) \<le> nat q" "nat q < b ^ Q"
    using floorlog_bounds [of "nat q" b] by (simp_all add: Q_def)
  have "P \<noteq> 0" "Q \<noteq> 0"
    using p q assms(1) by (simp_all add: P_def Q_def floorlog_eq_zero_iff)
  then have pos: "0 < P" "0 < Q" by simp_all
  have pr: "of_int p = (of_nat (nat p) :: rat)" using p by simp
  have qr: "of_int q = (of_nat (nat q) :: rat)" using q by simp
  have Pl: "B ^ (P - 1) \<le> of_int p" unfolding pr B_def
    using P(1) by (metis of_nat_le_iff of_nat_power)
  have Pu: "of_int p < B ^ P" unfolding pr B_def
    using P(2) by (metis of_nat_less_iff of_nat_power)
  have Ql: "B ^ (Q - 1) \<le> of_int q" unfolding qr B_def
    using Q(1) by (metis of_nat_le_iff of_nat_power)
  have Qu: "of_int q < B ^ Q" unfolding qr B_def
    using Q(2) by (metis of_nat_less_iff of_nat_power)
  define k where "k = int P - int Q"
  have Bpos: "0 < B ^ n" for n using B by simp
  have qpos: "(0::rat) < of_int q" using q by simp
  have ppos: "(0::rat) < of_int p" using p by simp
  have up: "x < B powi (k + 1)"
  proof -
    have "k + 1 = int P - int (Q - 1)" using pos by (simp add: k_def)
    then have "B powi (k + 1) = B ^ P / B ^ (Q - 1)"
      using B by (simp add: power_int_diff)
    moreover have "of_int p / of_int q < B ^ P / B ^ (Q - 1)"
      using Pu Ql qpos ppos Bpos [of "Q - 1"] Bpos [of P]
      by (intro frac_less) simp_all
    ultimately show ?thesis by (simp add: x)
  qed
  have low: "B powi (k - 1) < x"
  proof -
    have "k - 1 = int (P - 1) - int Q" using pos by (simp add: k_def)
    then have "B powi (k - 1) = B ^ (P - 1) / B ^ Q"
      using B by (simp add: power_int_diff)
    moreover have "B ^ (P - 1) / B ^ Q < of_int p / of_int q"
      using Pl Qu qpos ppos Bpos [of "P - 1"] Bpos [of Q]
      by (intro frac_less2) simp_all
    ultimately show ?thesis by (simp add: x)
  qed
  have il: "ilog b x = (if B powi k \<le> x then k else k - 1)"
    by (simp add: ilog_def pq P_def Q_def k_def B_def Let_def)
  show "of_nat b powi ilog b x \<le> x"
    using low unfolding il B_def [symmetric] by auto
  show "x < of_nat b powi (ilog b x + 1)"
    using up unfolding il B_def [symmetric] by auto
qed

lemma ilog_unique:
  assumes "1 < b" "of_nat b powi k \<le> x" "x < of_nat b powi (k + 1)"
  shows "ilog b x = k"
proof -
  define B :: rat where "B = of_nat b"
  have B: "1 < B" using assms(1) by (simp add: B_def)
  have "0 < B powi k" using B by (simp add: zero_less_power_int)
  with assms(2) have x: "0 < x" by (simp add: B_def)
  note b = ilog_bounds [OF assms(1) x, folded B_def]
  have lt1: "B powi ilog b x < B powi (k + 1)" using b(1) assms(3) by (simp add: B_def)
  have 1: "ilog b x < k + 1"
  proof (rule ccontr)
    assume "\<not> ilog b x < k + 1"
    then have "B powi (k + 1) \<le> B powi ilog b x"
      using B by (intro power_int_increasing) simp_all
    with lt1 show False by simp
  qed
  have lt2: "B powi k < B powi (ilog b x + 1)" using b(2) assms(2) by (simp add: B_def)
  have 2: "k < ilog b x + 1"
  proof (rule ccontr)
    assume "\<not> k < ilog b x + 1"
    then have "B powi (ilog b x + 1) \<le> B powi k"
      using B by (intro power_int_increasing) simp_all
    with lt2 show False by simp
  qed
  from 1 2 show ?thesis by simp
qed

lemma ilog2_bounds:
  assumes "x \<noteq> 0"
  shows "2 powi ilog 2 \<bar>x\<bar> \<le> \<bar>x\<bar>" and "\<bar>x\<bar> < 2 powi (ilog 2 \<bar>x\<bar> + 1)"
  using ilog_bounds [of 2 "\<bar>x\<bar>"] assms by simp_all

lemma ilog10_bounds:
  assumes "x \<noteq> 0"
  shows "10 powi ilog 10 \<bar>x\<bar> \<le> \<bar>x\<bar>" and "\<bar>x\<bar> < 10 powi (ilog 10 \<bar>x\<bar> + 1)"
  using ilog_bounds [of 10 "\<bar>x\<bar>"] assms by simp_all

lemma power_int_less_imp_less:
  fixes B :: rat
  assumes "1 < B" "B powi a < B powi b"
  shows "a < b"
proof (rule ccontr)
  assume "\<not> a < b"
  then have "B powi b \<le> B powi a"
    using assms(1) by (intro power_int_increasing) simp_all
  with assms(2) show False by simp
qed

lemma of_int_abs_less_iff: "\<bar>of_int k :: rat\<bar> < of_int N \<longleftrightarrow> \<bar>k\<bar> < N"
  using of_int_less_iff [of "\<bar>k\<bar>" N, where 'a = rat] by simp

lemma of_int_abs_le_iff: "\<bar>of_int k :: rat\<bar> \<le> of_int N \<longleftrightarrow> \<bar>k\<bar> \<le> N"
  using of_int_le_iff [of "\<bar>k\<bar>" N, where 'a = rat] by simp

lemma of_int_abs_ge_iff: "of_int N \<le> \<bar>of_int k :: rat\<bar> \<longleftrightarrow> N \<le> \<bar>k\<bar>"
  using of_int_le_iff [of N "\<bar>k\<bar>", where 'a = rat] by simp

lemma binary64_error:
  assumes "x \<noteq> 0" "\<bar>x\<bar> < 2 ^ 1023"
  shows "\<exists>d. binary64 x = Fin d
    \<and> \<bar>d - x\<bar> \<le> 2 powi (max (ilog 2 \<bar>x\<bar> - 52) (- 1074)) / 2"
proof -
  define e where "e = max (ilog 2 \<bar>x\<bar> - 52) (- 1074)"
  define m where "m = round_half_even (x / 2 powi e)"
  define v :: rat where "v = of_int m * 2 powi e"
  have u: "(0::rat) < 2 powi e" by (simp add: zero_less_power_int)
  note b = ilog2_bounds [OF assms(1)]
  have "(2::rat) powi ilog 2 \<bar>x\<bar> < 2 powi 1023"
    using b(1) assms(2) by simp
  then have "ilog 2 \<bar>x\<bar> < 1023"
    by (intro power_int_less_imp_less [of 2]) simp_all
  then have "e \<le> 970" by (simp add: e_def)
  then have "(2::rat) powi e \<le> 2 powi 970"
    by (intro power_int_increasing) simp_all
  then have u970: "(2::rat) powi e \<le> 2 ^ 970" by simp
  have "\<bar>of_int m - x / 2 powi e\<bar> \<le> 1 / 2"
    unfolding m_def by (rule round_half_even_error)
  then have "\<bar>of_int m - x / 2 powi e\<bar> * 2 powi e \<le> 1 / 2 * 2 powi e"
    using u by (intro mult_right_mono) simp_all
  moreover have "\<bar>of_int m - x / 2 powi e\<bar> * 2 powi e = \<bar>v - x\<bar>"
  proof -
    have "\<bar>of_int m - x / 2 powi e\<bar> * 2 powi e = \<bar>(of_int m - x / 2 powi e) * 2 powi e\<bar>"
      using u by (simp add: abs_mult)
    also have "(of_int m - x / 2 powi e) * 2 powi e = v - x"
      using u by (simp add: v_def field_simps)
    finally show ?thesis .
  qed
  ultimately have err: "\<bar>v - x\<bar> \<le> 2 powi e / 2" by simp
  have "(2::rat) ^ 1023 + 2 ^ 970 / 2 < 2 ^ 1024" by simp
  with err u970 assms(2) have "\<bar>v\<bar> < 2 ^ 1024" by linarith
  then have "\<not> 2 ^ 1024 \<le> v" "\<not> v \<le> - (2 ^ 1024)" by linarith+
  then have "binary64 x = Fin v"
    using assms(1) unfolding binary64_def e_def [symmetric] Let_def m_def [symmetric]
      v_def [symmetric]
    by (simp only: if_False)
  with err show ?thesis by (auto simp: e_def)
qed

lemma binary64_relative:
  assumes "2 powi (- 1022) \<le> \<bar>x\<bar>" "\<bar>x\<bar> < 2 ^ 1023"
  shows "\<exists>d. binary64 x = Fin d \<and> \<bar>d - x\<bar> \<le> \<bar>x\<bar> / 2 ^ 53"
proof -
  have "(0::rat) < 2 powi (- 1022)" by (simp add: zero_less_power_int)
  with assms(1) have pos: "0 < \<bar>x\<bar>" by linarith
  then have nz: "x \<noteq> 0" by simp
  note b = ilog2_bounds [OF nz]
  have "(2::rat) powi (- 1022) < 2 powi (ilog 2 \<bar>x\<bar> + 1)"
    using b(2) assms(1) by linarith
  then have "- 1022 < ilog 2 \<bar>x\<bar> + 1"
    by (intro power_int_less_imp_less [of 2]) simp_all
  then have e: "max (ilog 2 \<bar>x\<bar> - 52) (- 1074) = ilog 2 \<bar>x\<bar> - 52" by simp
  have "(2::rat) powi (ilog 2 \<bar>x\<bar> - 52) = 2 powi ilog 2 \<bar>x\<bar> / 2 ^ 52"
    by (simp add: power_int_diff)
  with b(1) have "(2::rat) powi (ilog 2 \<bar>x\<bar> - 52) / 2 \<le> \<bar>x\<bar> / 2 ^ 53"
    by (simp add: field_simps)
  with binary64_error [OF nz assms(2)] show ?thesis
    unfolding e by fastforce
qed

lemma binary64_absolute:
  assumes "\<bar>x\<bar> < 2 ^ 1023"
  shows "\<exists>d. binary64 x = Fin d \<and> \<bar>d - x\<bar> \<le> \<bar>x\<bar> / 2 ^ 53 + 1 / 2 ^ 1075"
proof (cases "x = 0")
  case True
  then show ?thesis by (simp add: binary64_def)
next
  case False
  note b = ilog2_bounds [OF False]
  have "(2::rat) powi (ilog 2 \<bar>x\<bar> - 52) = 2 powi ilog 2 \<bar>x\<bar> / 2 ^ 52"
    by (simp add: power_int_diff)
  with b(1) have 1: "(2::rat) powi (ilog 2 \<bar>x\<bar> - 52) / 2 \<le> \<bar>x\<bar> / 2 ^ 53"
    by (simp add: field_simps)
  have 2: "(2::rat) powi (- 1074) / 2 = 1 / 2 ^ 1075"
    by (simp add: power_int_minus_divide)
  have "(2::rat) powi (max (ilog 2 \<bar>x\<bar> - 52) (- 1074)) / 2 \<le> \<bar>x\<bar> / 2 ^ 53 + 1 / 2 ^ 1075"
  proof (cases "ilog 2 \<bar>x\<bar> - 52 \<le> - 1074")
    case True
    then have "max (ilog 2 \<bar>x\<bar> - 52) (- 1074) = - 1074" by simp
    then show ?thesis using 2 by simp
  next
    case False
    then have "max (ilog 2 \<bar>x\<bar> - 52) (- 1074) = ilog 2 \<bar>x\<bar> - 52" by simp
    then show ?thesis using 1 by simp
  qed
  with binary64_error [OF False assms] show ?thesis by fastforce
qed

lemma binary64_cert:
  assumes "x \<noteq> 0" "- 1074 \<le> e" "2 powi (e + 52) \<le> \<bar>x\<bar>" "\<bar>x\<bar> < 2 powi (e + 53)"
    "round_half_even (x / 2 powi e) = m" "\<bar>of_int m * 2 powi e :: rat\<bar> < 2 ^ 1024"
  shows "binary64 x = Fin (of_int m * 2 powi e)"
proof -
  have "ilog 2 \<bar>x\<bar> = e + 52"
    using assms(3,4) by (intro ilog_unique) (simp_all add: add.commute add.left_commute)
  then have e: "max (ilog 2 \<bar>x\<bar> - 52) (- 1074) = e" using assms(2) by simp
  from assms(6) have "\<not> 2 ^ 1024 \<le> (of_int m * 2 powi e :: rat)"
    "\<not> (of_int m * 2 powi e :: rat) \<le> - (2 ^ 1024)" by linarith+
  then show ?thesis
    using assms(1) unfolding binary64_def e Let_def assms(5)
    by (simp only: if_False)
qed

lemma binary64_exact:
  assumes "x \<noteq> 0" "\<bar>x\<bar> < 2 ^ 1024"
    "x / 2 powi (max (ilog 2 \<bar>x\<bar> - 52) (- 1074)) = of_int m"
  shows "binary64 x = Fin x"
proof -
  define e where "e = max (ilog 2 \<bar>x\<bar> - 52) (- 1074)"
  have u: "(0::rat) < 2 powi e" by (simp add: zero_less_power_int)
  have "of_int (round_half_even (x / 2 powi e)) * 2 powi e = x"
    using assms(3) u unfolding e_def [symmetric]
    by (simp add: round_half_even_of_int field_simps)
  moreover from assms(2) have "\<not> 2 ^ 1024 \<le> x" "\<not> x \<le> - (2 ^ 1024)" by linarith+
  ultimately show ?thesis
    using assms(1) unfolding binary64_def e_def [symmetric] Let_def
    by simp
qed

lemma binary64_of_int:
  assumes "\<bar>n\<bar> < 2 ^ 53"
  shows "binary64 (of_int n) = Fin (of_int n)"
proof (cases "n = 0")
  case True
  then show ?thesis by (simp add: binary64_def)
next
  case False
  define x :: rat where "x = of_int n"
  have nz: "x \<noteq> 0" using False by (simp add: x_def)
  then have pos: "0 < \<bar>x\<bar>" by simp
  note b = ilog2_bounds [OF nz]
  have "\<bar>x\<bar> < of_int (2 ^ 53)" unfolding x_def using assms
    by (simp only: of_int_abs_less_iff)
  then have "\<bar>x\<bar> < 2 ^ 53" by simp
  then have x53: "\<bar>x\<bar> < 2 powi 53" by simp
  with b(1) have "(2::rat) powi ilog 2 \<bar>x\<bar> < 2 powi 53" by linarith
  then have up: "ilog 2 \<bar>x\<bar> < 53"
    by (intro power_int_less_imp_less [of 2]) simp_all
  have "1 \<le> \<bar>n\<bar>" using False by simp
  then have "of_int 1 \<le> \<bar>x\<bar>" unfolding x_def
    by (simp only: of_int_abs_ge_iff)
  then have "1 \<le> \<bar>x\<bar>" by simp
  with b(2) have "(2::rat) powi 0 < 2 powi (ilog 2 \<bar>x\<bar> + 1)" by simp
  then have low: "0 < ilog 2 \<bar>x\<bar> + 1"
    by (intro power_int_less_imp_less [of 2]) simp_all
  define e where "e = ilog 2 \<bar>x\<bar> - 52"
  have e: "max (ilog 2 \<bar>x\<bar> - 52) (- 1074) = e" "e \<le> 0"
    using up low by (simp_all add: e_def)
  have "(2::rat) powi e = 1 / 2 ^ nat (- e)"
    using e(2) by (simp add: power_int_def field_simps)
  then have "x / 2 powi e = of_int (n * 2 ^ nat (- e))"
    by (simp add: x_def)
  moreover have "\<bar>x\<bar> < 2 ^ 1024"
  proof -
    have "(2::rat) ^ 53 < 2 ^ 1024" by simp
    with \<open>\<bar>x\<bar> < 2 ^ 53\<close> show ?thesis by linarith
  qed
  ultimately show ?thesis
    unfolding x_def [symmetric] using nz e(1)
    by (intro binary64_exact [where m = "n * 2 ^ nat (- e)"]) simp_all
qed

lemma format_14g_cert:
  assumes "x \<noteq> 0" "10 powi j \<le> \<bar>x\<bar>" "\<bar>x\<bar> < 10 powi (j + 1)"
    "round_half_even (x / 10 powi (j - 13)) = m"
  shows "format_14g x = of_int m * 10 powi (j - 13)"
proof -
  have "ilog 10 \<bar>x\<bar> = j"
    using assms(2,3) by (intro ilog_unique) simp_all
  then show ?thesis
    using assms(1,4) by (simp add: format_14g_def Let_def)
qed

lemma format_14g_near:
  assumes "of_int k = A * 100" "\<bar>A\<bar> < 10 ^ 10" "\<bar>d - A\<bar> \<le> \<bar>A\<bar> / 2 ^ 52"
  shows "format_14g d = A"
proof (cases "A = 0")
  case True
  with assms(3) show ?thesis by (simp add: format_14g_def)
next
  case False
  then have "k \<noteq> 0" using assms(1) by auto
  then have "1 \<le> \<bar>k\<bar>" by simp
  then have "of_int 1 \<le> \<bar>of_int k :: rat\<bar>"
    by (simp only: of_int_abs_ge_iff)
  then have "(1::rat) \<le> \<bar>of_int k\<bar>" by simp
  then have A1: "1 / 100 \<le> \<bar>A\<bar>" by (simp add: assms(1) abs_mult)
  have "\<bar>of_int k :: rat\<bar> < of_int (10 ^ 12)"
    using assms(2) by (simp add: assms(1) abs_mult)
  then have "\<bar>k\<bar> < 10 ^ 12"
    by (simp only: of_int_abs_less_iff)
  then have "\<bar>k\<bar> \<le> 10 ^ 12 - 1" by simp
  then have "\<bar>of_int k :: rat\<bar> \<le> of_int (10 ^ 12 - 1)"
    by (simp only: of_int_abs_le_iff)
  then have "\<bar>of_int k :: rat\<bar> \<le> 10 ^ 12 - 1" by simp
  then have A2: "\<bar>A\<bar> \<le> 10 ^ 10 - 1 / 100" by (simp add: assms(1) abs_mult)
  from A1 assms(3) have dnz: "d \<noteq> 0" by auto
  then have dpos: "0 < \<bar>d\<bar>" by simp
  define j where "j = ilog 10 \<bar>d\<bar>"
  note b = ilog10_bounds [OF dnz, folded j_def]
  have "\<bar>d\<bar> \<le> \<bar>A\<bar> + \<bar>d - A\<bar>" by linarith
  moreover have "\<bar>A\<bar> / 2 ^ 52 < 1 / 100" using A2 by simp
  ultimately have "\<bar>d\<bar> < 10 ^ 10" using A2 assms(3) by linarith
  with b(1) have "(10::rat) powi j < 10 powi 10" by simp
  then have j: "j < 10" by (intro power_int_less_imp_less [of 10]) simp_all
  define n where "n = nat (13 - j)"
  have n: "4 \<le> n" "j - 13 = - int n" "j + 1 = 14 - int n" using j by (simp_all add: n_def)
  define u :: rat where "u = 10 powi (j - 13)"
  have u: "u = 1 / 10 ^ n" unfolding u_def n(2) by (simp add: power_int_minus_divide)
  have u1: "10 powi (j + 1) = (10::rat) ^ 14 / 10 ^ n"
    unfolding n(3) by (simp add: power_int_diff)
  define T where "T = A * 10 ^ n"
  define D where "D = d * 10 ^ n"
  have p: "(0::rat) < 10 ^ n" by simp
  have "n = 2 + (n - 2)" using n(1) by simp
  then have "(10::rat) ^ n = 10 ^ (2 + (n - 2))" by simp
  then have "10 ^ n = (10::rat) ^ 2 * 10 ^ (n - 2)"
    by (simp only: power_add)
  then have T: "T = of_int (k * 10 ^ (n - 2))"
    by (simp add: T_def assms(1))
  have "\<bar>D\<bar> = \<bar>d\<bar> * 10 ^ n" by (simp add: D_def abs_mult)
  also have "\<dots> < 10 powi (j + 1) * 10 ^ n"
    using b(2) p by (intro mult_strict_right_mono) simp_all
  also have "\<dots> = 10 ^ 14" by (simp add: u1)
  finally have D14: "\<bar>D\<bar> < 10 ^ 14" .
  have "\<bar>D - T\<bar> = \<bar>d - A\<bar> * 10 ^ n"
    by (simp add: D_def T_def abs_mult flip: left_diff_distrib)
  also have "\<dots> \<le> \<bar>A\<bar> / 2 ^ 52 * 10 ^ n"
    using assms(3) p by (intro mult_right_mono) simp_all
  also have "\<dots> = \<bar>T\<bar> / 2 ^ 52" by (simp add: T_def abs_mult)
  finally have DT: "\<bar>D - T\<bar> \<le> \<bar>T\<bar> / 2 ^ 52" .
  have "\<bar>T\<bar> \<le> \<bar>D\<bar> + \<bar>D - T\<bar>" by linarith
  with DT D14 have "\<bar>T\<bar> < 10 ^ 14 + \<bar>T\<bar> / 2 ^ 52" by linarith
  then have "\<bar>T\<bar> < 2 * 10 ^ 14" by simp
  then have "\<bar>T\<bar> / 2 ^ 52 < 1 / 2" by simp
  with DT have "\<bar>D - T\<bar> < 1 / 2" by linarith
  then have "round_half_even D = k * 10 ^ (n - 2)"
    unfolding T by (rule round_half_even_near)
  moreover have "d / u = D" by (simp add: u D_def)
  ultimately have "of_int (round_half_even (d / u)) * u = T * u"
    by (simp add: T)
  also have "\<dots> = A" by (simp add: T_def u)
  finally show ?thesis
    using dnz by (simp add: format_14g_def Let_def j_def [symmetric] u_def [symmetric])
qed

lemma format_14g_of_int:
  assumes "\<bar>n\<bar> < 10 ^ 14"
  shows "format_14g (of_int n) = of_int n"
proof (cases "n = 0")
  case True
  then show ?thesis by (simp add: format_14g_def)
next
  case False
  define x :: rat where "x = of_int n"
  have nz: "x \<noteq> 0" using False by (simp add: x_def)
  then have pos: "0 < \<bar>x\<bar>" by simp
  define j where "j = ilog 10 \<bar>x\<bar>"
  note b = ilog10_bounds [OF nz, folded j_def]
  have "\<bar>x\<bar> < of_int (10 ^ 14)" unfolding x_def using assms
    by (simp only: of_int_abs_less_iff)
  then have "\<bar>x\<bar> < 10 ^ 14" by simp
  with b(1) have "(10::rat) powi j < 10 powi 14" by simp
  then have j: "j < 14" by (intro power_int_less_imp_less [of 10]) simp_all
  then have u: "(10::rat) powi (j - 13) = 1 / 10 ^ nat (13 - j)"
    by (simp add: power_int_def field_simps)
  then have "x / 10 powi (j - 13) = of_int (n * 10 ^ nat (13 - j))"
    by (simp add: x_def)
  then have "round_half_even (x / 10 powi (j - 13)) = n * 10 ^ nat (13 - j)"
    by (simp only: round_half_even_of_int)
  then have "of_int (round_half_even (x / 10 powi (j - 13))) * 10 powi (j - 13) = x"
    unfolding u by (simp add: x_def)
  then show ?thesis
    using nz unfolding x_def [symmetric]
    by (simp add: format_14g_def Let_def j_def [symmetric])
qed

subsection \<open>Amounts of money\<close>

text \<open>
  On the amounts of \<^verbatim>\<open>DECIMAL(12, 2)\<close> the error of a double is below \<open>2 ^ - 19\<close> and
  that of a rounded sum of two below \<open>2 ^ - 16\<close>, far less than a cent: the string that
  \<^verbatim>\<open>tostring\<close> prints for the double of an amount holds the amount again, a bid that
  the comparison of doubles lets pass is at least the exact sum, and the rounded sum
  of an amount and a positive increment is above the double of the amount.
\<close>

lemma binary64_numeral:
  "numeral n < (2 ^ 53 :: int) \<Longrightarrow> binary64 (numeral n) = Fin (numeral n)"
  using binary64_of_int [of "numeral n"] by simp

lemma format_14g_numeral:
  "numeral n < (10 ^ 14 :: int) \<Longrightarrow> format_14g (numeral n) = numeral n"
  using format_14g_of_int [of "numeral n"] by simp

lemma decimal_12_2_cases:
  assumes "decimal_12_2 x"
  obtains "x = 0" | k where "of_int k = x * 100" "1 / 100 \<le> \<bar>x\<bar>" "\<bar>x\<bar> < 10 ^ 10"
proof (cases "x = 0")
  case True
  then show ?thesis by (rule that(1))
next
  case False
  define k where "k = \<lfloor>x * 100\<rfloor>"
  from assms have k: "of_int k = x * 100" and small: "\<bar>x\<bar> < 10 ^ 10"
    by (simp_all add: decimal_12_2_def k_def)
  from False k have "k \<noteq> 0" by auto
  then have "1 \<le> \<bar>k\<bar>" by simp
  then have "of_int 1 \<le> \<bar>of_int k :: rat\<bar>"
    by (simp only: of_int_abs_ge_iff)
  then have low: "1 / 100 \<le> \<bar>x\<bar>" by (simp add: k abs_mult)
  from k low small show ?thesis by (rule that(2))
qed

lemma decimal_binary64:
  assumes "decimal_12_2 x"
  shows "\<exists>d. binary64 x = Fin d \<and> \<bar>d - x\<bar> \<le> \<bar>x\<bar> / 2 ^ 53"
using assms proof (cases rule: decimal_12_2_cases)
  case 1
  then show ?thesis by (simp add: binary64_def)
next
  case (2 k)
  have "(2::rat) powi (- 1022) \<le> 1 / 100" by (simp add: power_int_minus_divide)
  with 2(2) have low: "2 powi (- 1022) \<le> \<bar>x\<bar>" by linarith
  have "(10::rat) ^ 10 < 2 ^ 1023" by simp
  with 2(3) have "\<bar>x\<bar> < 2 ^ 1023" by linarith
  with low show ?thesis by (rule binary64_relative)
qed

lemma decimal_error:
  assumes "decimal_12_2 x" "binary64 x = Fin d"
  shows "\<bar>d - x\<bar> \<le> \<bar>x\<bar> / 2 ^ 53" and "\<bar>d - x\<bar> \<le> 1 / 2 ^ 19"
proof -
  from decimal_binary64 [OF assms(1)] assms(2)
  show rel: "\<bar>d - x\<bar> \<le> \<bar>x\<bar> / 2 ^ 53" by auto
  from assms(1) have "\<bar>x\<bar> < 10 ^ 10" by (simp add: decimal_12_2_def)
  then have "\<bar>x\<bar> / 2 ^ 53 \<le> 1 / 2 ^ 19" by simp
  with rel show "\<bar>d - x\<bar> \<le> 1 / 2 ^ 19" by linarith
qed

lemma decimal_sign:
  assumes "decimal_12_2 x" "binary64 x = Fin d"
  shows "0 < d \<longleftrightarrow> 0 < x"
proof -
  note e = decimal_error(1) [OF assms]
  have "\<bar>x\<bar> / 2 ^ 53 < \<bar>x\<bar> \<or> x = 0" by simp
  with e show ?thesis by (auto simp: abs_if split: if_splits)
qed

lemma decimal_roundtrip:
  assumes "decimal_12_2 x"
  shows "tostring (tonumber (Fin x)) = Fin x"
proof -
  from decimal_binary64 [OF assms] obtain d
    where d: "binary64 x = Fin d" "\<bar>d - x\<bar> \<le> \<bar>x\<bar> / 2 ^ 53" by blast
  have "\<bar>x\<bar> / 2 ^ 53 \<le> \<bar>x\<bar> / 2 ^ 52" by (simp add: field_simps)
  with d(2) have near: "\<bar>d - x\<bar> \<le> \<bar>x\<bar> / 2 ^ 52" by linarith
  from assms have "of_int \<lfloor>x * 100\<rfloor> = x * 100" "\<bar>x\<bar> < 10 ^ 10"
    by (simp_all add: decimal_12_2_def)
  from format_14g_near [OF this near] d(1) show ?thesis by simp
qed

lemma decimal_sum:
  assumes "decimal_12_2 C" "decimal_12_2 E" "binary64 C = Fin c" "binary64 E = Fin e"
  shows "\<exists>f. lua_add (Fin c) (Fin e) = Some (Fin f) \<and> \<bar>f - (C + E)\<bar> \<le> 1 / 2 ^ 16"
proof -
  note ec = decimal_error(2) [OF assms(1,3)]
  note ee = decimal_error(2) [OF assms(2,4)]
  from assms(1,2) have small: "\<bar>C\<bar> < 10 ^ 10" "\<bar>E\<bar> < 10 ^ 10"
    by (simp_all add: decimal_12_2_def)
  have s: "\<bar>c + e\<bar> < 2 ^ 35" using ec ee small by (simp add: abs_if split: if_splits)
  have "(2::rat) ^ 35 < 2 ^ 1023" by simp
  with s have "\<bar>c + e\<bar> < 2 ^ 1023" by linarith
  from binary64_absolute [OF this] obtain f
    where f: "binary64 (c + e) = Fin f" "\<bar>f - (c + e)\<bar> \<le> \<bar>c + e\<bar> / 2 ^ 53 + 1 / 2 ^ 1075"
    by blast
  have "\<bar>c + e\<bar> / 2 ^ 53 < 1 / 2 ^ 18" using s by simp
  moreover have "(1::rat) / 2 ^ 1075 < 1 / 2 ^ 18" by simp
  ultimately have "\<bar>f - (c + e)\<bar> \<le> 1 / 2 ^ 17" using f(2) by simp
  with ec ee have "\<bar>f - (C + E)\<bar> \<le> 1 / 2 ^ 16" by (simp add: abs_if split: if_splits)
  with f(1) show ?thesis by simp
qed

lemma decimal_accept:
  assumes "decimal_12_2 A" "decimal_12_2 C" "decimal_12_2 E"
    "binary64 A = Fin a" "binary64 C = Fin c" "binary64 E = Fin e"
    "lua_add (Fin c) (Fin e) = Some m" "\<not> lua_less (Fin a) m"
  shows "C + E \<le> A"
proof (rule ccontr)
  assume "\<not> C + E \<le> A"
  then have less: "A < C + E" by simp
  from assms(1,2,3) have ints: "of_int \<lfloor>A * 100\<rfloor> = A * 100" "of_int \<lfloor>C * 100\<rfloor> = C * 100"
    "of_int \<lfloor>E * 100\<rfloor> = E * 100"
    by (simp_all add: decimal_12_2_def)
  from less have "A * 100 < C * 100 + E * 100" by simp
  then have "(of_int \<lfloor>A * 100\<rfloor> :: rat) < of_int (\<lfloor>C * 100\<rfloor> + \<lfloor>E * 100\<rfloor>)"
    by (simp add: ints)
  then have "\<lfloor>A * 100\<rfloor> < \<lfloor>C * 100\<rfloor> + \<lfloor>E * 100\<rfloor>"
    by (simp only: of_int_less_iff)
  then have "\<lfloor>A * 100\<rfloor> + 1 \<le> \<lfloor>C * 100\<rfloor> + \<lfloor>E * 100\<rfloor>" by simp
  then have "(of_int (\<lfloor>A * 100\<rfloor> + 1) :: rat) \<le> of_int (\<lfloor>C * 100\<rfloor> + \<lfloor>E * 100\<rfloor>)"
    by (simp only: of_int_le_iff)
  then have gap: "A + 1 / 100 \<le> C + E" by (simp add: ints)
  from decimal_sum [OF assms(2,3,5,6)] assms(7) obtain f
    where f: "m = Fin f" "\<bar>f - (C + E)\<bar> \<le> 1 / 2 ^ 16" by auto
  note ea = decimal_error(2) [OF assms(1,4)]
  have "(1::rat) / 2 ^ 16 + 1 / 2 ^ 19 < 1 / 100" by simp
  with gap f(2) ea have "a < f" by (simp add: abs_if split: if_splits)
  with assms(8) f(1) show False by simp
qed

lemma decimal_above:
  assumes "decimal_12_2 C" "decimal_12_2 E" "0 < E"
    "binary64 C = Fin c" "binary64 E = Fin e"
  shows "\<exists>f. lua_add (Fin c) (Fin e) = Some (Fin f) \<and> c < f"
proof -
  from assms(2,3) have "1 / 100 \<le> E"
    by (cases rule: decimal_12_2_cases) simp_all
  moreover from decimal_sum [OF assms(1,2,4,5)] obtain f
    where f: "lua_add (Fin c) (Fin e) = Some (Fin f)" "\<bar>f - (C + E)\<bar> \<le> 1 / 2 ^ 16" by blast
  moreover note decimal_error(2) [OF assms(1,4)]
  moreover have "(1::rat) / 2 ^ 16 + 1 / 2 ^ 19 < 1 / 100" by simp
  ultimately have "c < f" by (simp add: abs_if split: if_splits)
  with f(1) show ?thesis by blast
qed

section \<open>The atomic primitives\<close>

text \<open>The concrete stores, field by field.\<close>

lemma S1_fields:
  "auction_id auction_S1 = ''A''" "seller_id auction_S1 = ''seller''"
  "status auction_S1 = Active" "end_time auction_S1 = 1000"
  "highest_bidder_id auction_S1 = Some []" "starting_price auction_S1 = 100"
  "current_bid auction_S1 = Some (Fin 100)" "bid_increment auction_S1 = Some 5"
  "total_bids auction_S1 = Some 0"
  by (simp_all add: auction_S1_def)

lemma S1_bid_fields:
  "auction_id auction_S1_bid = ''A''" "seller_id auction_S1_bid = ''seller''"
  "status auction_S1_bid = Active" "end_time auction_S1_bid = 1000"
  "highest_bidder_id auction_S1_bid = Some ''U1''"
  "starting_price auction_S1_bid = 100"
  "current_bid auction_S1_bid = Some (Fin 100)" "bid_increment auction_S1_bid = Some 5"
  "total_bids auction_S1_bid = Some 1"
  by (simp_all add: auction_S1_bid_def auction_S1_def)


lemma store_of_lookup: "hashes (store_of a) ''auction:A'' = Some a"
  by (simp add: store_of_def)

text \<open>The doubles and the printed values of the amounts used below.\<close>

lemma binary64_1: "binary64 1 = Fin 1"
  using binary64_of_int [of 1] by simp







lemma binary64_large: "binary64 100000000000000000 = Fin 100000000000000000"
proof -
  have "round_half_even (100000000000000000 / 2 powi 4) = 6250000000000000"
    by (rule round_half_even_near) simp
  from binary64_cert [OF _ _ _ _ this] show ?thesis by simp
qed

lemma binary64_large_plus_5: "binary64 100000000000000005 = Fin 100000000000000000"
proof -
  have "round_half_even (100000000000000005 / 2 powi 4) = 6250000000000000"
    by (rule round_half_even_near) simp
  from binary64_cert [OF _ _ _ _ this] show ?thesis by simp
qed

lemma format_14g_large: "format_14g 100000000000000000 = 100000000000000000"
proof -
  have "round_half_even (100000000000000000 / 10 powi (17 - 13)) = 10000000000000"
    by (rule round_half_even_near) simp
  from format_14g_cert [OF _ _ _ this] show ?thesis by simp
qed

text \<open>The ways a call of the place-bid script ends.\<close>

lemma placeBid_absent:
  "hashes s auctionKey = None \<Longrightarrow>
   placeBid s auctionKey amountArg bidderId currentTime incrementArg = (AuctionNotFound, s)"
  by (simp add: placeBid_def)

lemma acceptBid_reply:
  "place_bid_status (fst (acceptBid s auctionKey a x bidderId t)) = 1"
  "accepted_amount (fst (acceptBid s auctionKey a x bidderId t)) = Some (tostring x)"
  "hashes (snd (acceptBid s auctionKey a x bidderId t)) auctionKey
     = Some (a\<lparr>current_bid := Some (tostring x), highest_bidder_id := Some bidderId,
          total_bids := Some (P1_totalBids a + 1)\<rparr>)"
  by (simp_all add: acceptBid_def Let_def P1_totalBids_def)

lemma placeBid_cases:
  "(place_bid_status (fst (placeBid s auctionKey amountArg bidderId t incrementArg)) \<noteq> 1
      \<and> accepted_amount (fst (placeBid s auctionKey amountArg bidderId t incrementArg)) = None
      \<and> snd (placeBid s auctionKey amountArg bidderId t incrementArg) = s)
   \<or> (\<exists>a x. hashes s auctionKey = Some a \<and> amountArg = Some x
         \<and> placeBid s auctionKey amountArg bidderId t incrementArg
             = acceptBid s auctionKey a (tonumber x) bidderId t
         \<and> lua_less (Fin 0) (tonumber x)
         \<and> (\<forall>m. minimumBid a incrementArg = Some m \<longrightarrow> \<not> lua_less (tonumber x) m))"
  by (auto simp: placeBid_def lua_le_def split: option.splits)

lemmas placeBid_eval = placeBid_def acceptBid_def minimumBid_def isFirstBid_def currentBid_def
  bidIncrement_def lua_le_def Let_def binary64_numeral format_14g_numeral binary64_1
  store_of_lookup S1_fields













subsection \<open>Exact decimal arithmetic\<close>














subsection \<open>Monotonic price\<close>

lemma bidIncrement_decimal:
  assumes "bid_increment a = Some inc" "decimal_12_2 inc" "0 < inc" "hint_respects inc hint"
  shows "\<exists>E. decimal_12_2 E \<and> inc \<le> E \<and> bidIncrement a hint = tonumber (Fin E)"
proof (cases hint)
  case None
  with assms(1,2) show ?thesis by (auto simp: bidIncrement_def)
next
  case (Some h)
  with assms(4) obtain x where h: "h = Fin x" and x: "decimal_12_2 x" "x \<le> 0 \<or> inc \<le> x"
    by (cases h) simp_all
  from decimal_binary64 [OF x(1)] obtain d where d: "binary64 x = Fin d" by blast
  note sign = decimal_sign [OF x(1) d]
  show ?thesis
  proof (cases "0 < x")
    case True
    with x(2) assms(3) have "inc \<le> x" by linarith
    moreover from True sign have "bidIncrement a hint = tonumber (Fin x)"
      by (simp add: bidIncrement_def Some h d)
    ultimately show ?thesis using x(1) by blast
  next
    case False
    with sign have "bidIncrement a hint = tonumber (Fin inc)"
      by (simp add: bidIncrement_def Some h d assms(1))
    with assms(2) show ?thesis by blast
  qed
qed

lemma placeBid_step:
  assumes "hashes s auctionKey = Some a" "bid_increment a = Some inc" "decimal_12_2 inc"
    "0 < inc" "decimal_current_bid a" "decimal_amount amountArg" "hint_respects inc hint"
  shows "(accepted_amount (fst (placeBid s auctionKey amountArg bidderId t hint)) = None
          \<and> snd (placeBid s auctionKey amountArg bidderId t hint) = s)
       \<or> (\<exists>A. decimal_12_2 A
             \<and> accepted_amount (fst (placeBid s auctionKey amountArg bidderId t hint))
                 = Some (Fin A)
             \<and> hashes (snd (placeBid s auctionKey amountArg bidderId t hint)) auctionKey
                 = Some (a\<lparr>current_bid := Some (Fin A), highest_bidder_id := Some bidderId,
                      total_bids := Some (P1_totalBids a + 1)\<rparr>)
             \<and> (P1_unset (highest_bidder_id a)
                  \<or> (\<exists>c. current_bid a = Some (Fin c) \<and> c + inc \<le> A)))"
  using placeBid_cases [of s auctionKey amountArg bidderId t hint]
proof (elim disjE exE conjE)
  fix a' x
  assume acc: "hashes s auctionKey = Some a'" "amountArg = Some x"
    "placeBid s auctionKey amountArg bidderId t hint
       = acceptBid s auctionKey a' (tonumber x) bidderId t"
    "\<forall>m. minimumBid a' hint = Some m \<longrightarrow> \<not> lua_less (tonumber x) m"
  from acc(1) assms(1) have a': "a' = a" by simp
  from acc(2) assms(6) obtain A where A: "x = Fin A" "decimal_12_2 A"
    by (cases x) simp_all
  note stored = decimal_roundtrip [OF A(2)]
  have bound: "P1_unset (highest_bidder_id a) \<or> (\<exists>c. current_bid a = Some (Fin c) \<and> c + inc \<le> A)"
  proof (cases "P1_unset (highest_bidder_id a)")
    case False
    with assms(5) obtain c where c: "current_bid a = Some (Fin c)" "decimal_12_2 c"
      by (cases "current_bid a" rule: decimal_stored.cases)
        (auto simp: decimal_current_bid_def)
    from bidIncrement_decimal [OF assms(2,3,4,7)] obtain E
      where E: "decimal_12_2 E" "inc \<le> E" "bidIncrement a hint = tonumber (Fin E)" by blast
    from decimal_binary64 [OF A(2)] obtain da where da: "binary64 A = Fin da" by blast
    from decimal_binary64 [OF c(2)] obtain dc where dc: "binary64 c = Fin dc" by blast
    from decimal_binary64 [OF E(1)] obtain de where de: "binary64 E = Fin de" by blast
    from decimal_sum [OF c(2) E(1) dc de] obtain f
      where f: "lua_add (Fin dc) (Fin de) = Some (Fin f)" by blast
    from False have first: "\<not> isFirstBid a"
      by (simp add: isFirstBid_def P1_unset_def)
    have "minimumBid a hint = Some (Fin f)"
      using f by (simp add: minimumBid_def first currentBid_def c(1) dc E(3) de)
    with acc(4) a' A(1) da have "\<not> lua_less (Fin da) (Fin f)" by simp
    from decimal_accept [OF A(2) c(2) E(1) da dc de f this] E(2) c(1)
    show ?thesis by auto
  qed simp
  from acc(3) a' A(1) stored bound A(2) show ?thesis
    by (simp add: acceptBid_reply del: tonumber.simps tostring.simps)
qed simp

lemma accepted_amounts_Cons:
  "accepted_amounts (r # tr) =
    (case accepted_amount (fst r) of None \<Rightarrow> accepted_amounts tr
     | Some x \<Rightarrow> x # accepted_amounts tr)"
  by (simp add: accepted_amounts_def split: option.splits)

lemma currentBids_Cons:
  "hashes s auctionKey = Some a \<Longrightarrow>
   currentBids auctionKey (s # sts) =
     (case bid_exists a of None \<Rightarrow> currentBids auctionKey sts
      | Some c \<Rightarrow> c # currentBids auctionKey sts)"
  by (simp add: currentBids_def split: option.splits)

lemma bid_exists_floor:
  "decimal_current_bid a \<Longrightarrow>
   (case bid_exists a of None \<Rightarrow> [] | Some c \<Rightarrow> [c]) = map Fin (floor_bid a)"
  by (cases "current_bid a" rule: decimal_stored.cases)
    (auto simp: floor_bid_def bid_exists_def decimal_current_bid_def)

lemma floor_bid_short: "floor_bid a = [] \<or> (\<exists>c. floor_bid a = [c])"
  by (simp add: floor_bid_def split: option.splits lua_number.splits)

lemma placeBid_calls_monotone:
  assumes "decimal_12_2 inc" "0 < inc"
  shows "hashes s auctionKey = Some a \<Longrightarrow> bid_increment a = Some inc \<Longrightarrow>
     decimal_current_bid a \<Longrightarrow>
     (\<forall>c \<in> set calls. bc_bidder c \<noteq> [] \<and> decimal_amount (bc_amount c)
         \<and> hint_respects inc (bc_hint c)) \<Longrightarrow>
     \<exists>xs ys. accepted_amounts (placeBid_calls s auctionKey calls) = map Fin xs
       \<and> currentBids auctionKey (s # map snd (placeBid_calls s auctionKey calls)) = map Fin ys
       \<and> successively (\<lambda>x y. x + inc \<le> y) (floor_bid a @ xs)
       \<and> successively (\<le>) ys"
proof (induction calls arbitrary: s a)
  case Nil
  have "accepted_amounts (placeBid_calls s auctionKey []) = map Fin []"
    by (simp add: accepted_amounts_def)
  moreover have "currentBids auctionKey (s # map snd (placeBid_calls s auctionKey []))
      = map Fin (floor_bid a)"
    using bid_exists_floor [OF Nil(3)] Nil(1)
    by (simp add: currentBids_def split: option.splits)
  moreover have "successively (\<lambda>x y. x + inc \<le> y) (floor_bid a @ [])"
    "successively (\<le>) (floor_bid a)"
    using floor_bid_short [of a] by auto
  ultimately show ?case by blast
next
  case (Cons c cs)
  define r where "r = placeBid s auctionKey (bc_amount c) (bc_bidder c) (bc_time c) (bc_hint c)"
  have tr: "placeBid_calls s auctionKey (c # cs) = r # placeBid_calls (snd r) auctionKey cs"
    by (simp add: r_def Let_def)
  have ok: "bc_bidder c \<noteq> []" "decimal_amount (bc_amount c)" "hint_respects inc (bc_hint c)"
    and oks: "\<forall>c \<in> set cs. bc_bidder c \<noteq> [] \<and> decimal_amount (bc_amount c)
         \<and> hint_respects inc (bc_hint c)"
    using Cons.prems(4) by simp_all
  note start = bid_exists_floor [OF Cons.prems(3)]
  define above where "above = (\<lambda>A. P1_unset (highest_bidder_id a)
                  \<or> (\<exists>c. current_bid a = Some (Fin c) \<and> c + inc \<le> A))"
  have "(accepted_amount (fst r) = None \<and> snd r = s)
       \<or> (\<exists>A. decimal_12_2 A \<and> accepted_amount (fst r) = Some (Fin A)
             \<and> hashes (snd r) auctionKey
                 = Some (a\<lparr>current_bid := Some (Fin A), highest_bidder_id := Some (bc_bidder c),
                      total_bids := Some (P1_totalBids a + 1)\<rparr>)
             \<and> above A)"
    unfolding r_def above_def
    by (rule placeBid_step [OF Cons.prems(1,2) assms Cons.prems(3) ok(2,3)])
  then show ?case
  proof (elim disjE exE conjE)
    assume rejected: "accepted_amount (fst r) = None" "snd r = s"
    from Cons.IH [OF Cons.prems(1,2,3) oks] obtain xs ys
      where IH: "accepted_amounts (placeBid_calls s auctionKey cs) = map Fin xs"
        "currentBids auctionKey (s # map snd (placeBid_calls s auctionKey cs)) = map Fin ys"
        "successively (\<lambda>x y. x + inc \<le> y) (floor_bid a @ xs)" "successively (\<le>) ys"
      by blast
    have "currentBids auctionKey (s # map snd (placeBid_calls s auctionKey (c # cs)))
        = map Fin (floor_bid a @ ys)"
      unfolding tr using rejected(2) IH(2) Cons.prems(1) start
      by (simp add: currentBids_Cons split: option.splits)
    moreover have "successively (\<le>) (floor_bid a @ ys)"
      using IH(2,4) Cons.prems(1) start
      by (auto simp: currentBids_Cons floor_bid_def successively_Cons
          split: option.splits lua_number.splits)
    moreover have "accepted_amounts (placeBid_calls s auctionKey (c # cs)) = map Fin xs"
      unfolding tr using rejected IH(1) by (simp add: accepted_amounts_Cons)
    ultimately show ?thesis using IH(3) by blast
  next
    fix A
    assume accepted: "decimal_12_2 A" "accepted_amount (fst r) = Some (Fin A)"
      "hashes (snd r) auctionKey
        = Some (a\<lparr>current_bid := Some (Fin A), highest_bidder_id := Some (bc_bidder c),
             total_bids := Some (P1_totalBids a + 1)\<rparr>)"
      "above A"
    define a' where "a' = a\<lparr>current_bid := Some (Fin A), highest_bidder_id := Some (bc_bidder c),
             total_bids := Some (P1_totalBids a + 1)\<rparr>"
    have a': "hashes (snd r) auctionKey = Some a'" "bid_increment a' = Some inc"
      "decimal_current_bid a'" "floor_bid a' = [A]" "bid_exists a' = Some (Fin A)"
      using accepted(1,3) Cons.prems(2) ok(1)
      by (simp_all add: a'_def P1_unset_def decimal_current_bid_def floor_bid_def
          bid_exists_def)
    from Cons.IH [OF a'(1,2,3) oks] obtain xs ys
      where IH: "accepted_amounts (placeBid_calls (snd r) auctionKey cs) = map Fin xs"
        "currentBids auctionKey (snd r # map snd (placeBid_calls (snd r) auctionKey cs))
           = map Fin ys"
        "successively (\<lambda>x y. x + inc \<le> y) (floor_bid a' @ xs)" "successively (\<le>) ys"
      by blast
    from IH(2) a'(1,5) obtain ys' where ys: "ys = A # ys'"
      by (auto simp: currentBids_Cons)
    have gap: "successively (\<lambda>x y. x + inc \<le> y) (floor_bid a @ [A])"
      using accepted(4)
      by (auto simp: above_def floor_bid_def bid_exists_def)
    have bids: "successively (\<le>) (floor_bid a @ ys)"
    proof -
      from gap assms(2) have "successively (\<le>) (floor_bid a @ [A])"
        by (auto simp: floor_bid_def split: option.splits lua_number.splits)
      with IH(4) show ?thesis
        unfolding ys by (auto simp: floor_bid_def split: option.splits lua_number.splits)
    qed
    have "accepted_amounts (placeBid_calls s auctionKey (c # cs)) = map Fin (A # xs)"
      unfolding tr using accepted(2) IH(1) by (simp add: accepted_amounts_Cons)
    moreover have "currentBids auctionKey (s # map snd (placeBid_calls s auctionKey (c # cs)))
        = map Fin (floor_bid a @ ys)"
      unfolding tr using IH(2) Cons.prems(1) start
      by (simp add: currentBids_Cons split: option.splits)
    moreover have "successively (\<lambda>x y. x + inc \<le> y) (floor_bid a @ A # xs)"
      using gap IH(3) a'(4)
      by (auto simp: floor_bid_def split: option.splits lua_number.splits)
    ultimately show ?thesis using bids by blast
  qed
qed

lemma placeBid_calls_last:
  assumes "decimal_12_2 inc" "0 < inc"
  shows "hashes s auctionKey = Some a \<Longrightarrow> bid_increment a = Some inc \<Longrightarrow>
     decimal_current_bid a \<Longrightarrow>
     (\<forall>c \<in> set calls. bc_bidder c \<noteq> [] \<and> decimal_amount (bc_amount c)
         \<and> hint_respects inc (bc_hint c)) \<Longrightarrow>
     \<exists>a'. hashes (last (s # map snd (placeBid_calls s auctionKey calls))) auctionKey = Some a'
        \<and> bid_increment a' = Some inc \<and> decimal_current_bid a'"
proof (induction calls arbitrary: s a)
  case Nil
  then show ?case by simp
next
  case (Cons c cs)
  define r where "r = placeBid s auctionKey (bc_amount c) (bc_bidder c) (bc_time c) (bc_hint c)"
  have ok: "bc_bidder c \<noteq> []" "decimal_amount (bc_amount c)" "hint_respects inc (bc_hint c)"
    and oks: "\<forall>c \<in> set cs. bc_bidder c \<noteq> [] \<and> decimal_amount (bc_amount c)
         \<and> hint_respects inc (bc_hint c)"
    using Cons.prems(4) by simp_all
  from placeBid_step [OF Cons.prems(1,2) assms Cons.prems(3) ok(2,3),
      of "bc_bidder c" "bc_time c"] Cons.prems(1,2,3) ok(1)
  obtain a1 where "hashes (snd r) auctionKey = Some a1" "bid_increment a1 = Some inc"
    "decimal_current_bid a1"
    unfolding r_def by (auto simp: decimal_current_bid_def P1_unset_def)
  from Cons.IH [OF this oks] show ?case
    by (simp add: r_def Let_def)
qed

lemma equal_bid_rejected:
  assumes "hashes s auctionKey = Some a" "bid_increment a = Some inc" "decimal_12_2 inc"
    "0 < inc" "decimal_current_bid a" "\<not> P1_unset (highest_bidder_id a)"
    "hint_respects inc hint"
  shows "place_bid_status (fst (placeBid s auctionKey (current_bid a) bidderId t hint)) \<noteq> 1"
    and "status a = Active \<Longrightarrow> t < end_time a \<Longrightarrow> bidderId \<noteq> seller_id a \<Longrightarrow>
         valid_amount (current_bid a) \<Longrightarrow>
         place_bid_status (fst (placeBid s auctionKey (current_bid a) bidderId t hint)) = 0"
proof -
  from assms(5,6) obtain c where c: "current_bid a = Some (Fin c)" "decimal_12_2 c"
    by (cases "current_bid a" rule: decimal_stored.cases)
      (auto simp: decimal_current_bid_def)
  from bidIncrement_decimal [OF assms(2,3,4,7)] obtain E
    where E: "decimal_12_2 E" "inc \<le> E" "bidIncrement a hint = tonumber (Fin E)" by blast
  from decimal_binary64 [OF c(2)] obtain dc where dc: "binary64 c = Fin dc" by blast
  from decimal_binary64 [OF E(1)] obtain de where de: "binary64 E = Fin de" by blast
  from E(2) assms(4) have "0 < E" by linarith
  from decimal_above [OF c(2) E(1) this dc de] obtain f
    where f: "lua_add (Fin dc) (Fin de) = Some (Fin f)" "dc < f" by blast
  from assms(6) have first: "\<not> isFirstBid a"
    by (simp add: isFirstBid_def P1_unset_def)
  have minimum: "minimumBid a hint = Some (Fin f)"
    using f(1) by (simp add: minimumBid_def first currentBid_def c(1) dc E(3) de)
  show "place_bid_status (fst (placeBid s auctionKey (current_bid a) bidderId t hint)) \<noteq> 1"
    using assms(1) minimum f(2)
    by (simp add: placeBid_def c(1) dc)
  show "place_bid_status (fst (placeBid s auctionKey (current_bid a) bidderId t hint)) = 0"
    if "status a = Active" "t < end_time a" "bidderId \<noteq> seller_id a"
      "valid_amount (current_bid a)"
    using that assms(1) minimum f(2)
    by (simp add: placeBid_def c(1) dc valid_amount_def lua_le_def)
qed

lemma transp_increment: "0 < inc \<Longrightarrow> transp (\<lambda>x y :: rat. x + inc \<le> y)"
  by (rule transpI) linarith

lemma lists_of_Fin:
  "sorted_wrt lua_less (map Fin xs) = sorted_wrt (<) xs"
  "successively (\<lambda>x y. lua_le (exact_add x (Fin inc)) y) (map Fin xs)
     = successively (\<lambda>x y. x + inc \<le> y) xs"
  "sorted_wrt lua_le (map Fin xs) = sorted xs"
  by (simp_all add: sorted_wrt_map successively_map lua_le_def not_less)

lemma accepted_hint:
  "accepted_amounts (placeBid_calls (store_of auction_S1) ''auction:A'' calls_hint)
    = [Fin 100, Fin 101]"
  by (simp add: accepted_amounts_def calls_hint_def bid_def placeBid_eval)

lemma accepted_empty_bidder:
  "accepted_amounts (placeBid_calls (store_of auction_S1) ''auction:A'' calls_empty_bidder)
    = [Fin 100, Fin 100]"
  by (simp add: accepted_amounts_def calls_empty_bidder_def bid_def placeBid_eval)

lemma accepted_large:
  "accepted_amounts (placeBid_calls (store_of auction_S1) ''auction:A'' calls_large)
    = [Fin 100000000000000000, Fin 100000000000000000]"
  by (simp add: accepted_amounts_def calls_large_def bid_def placeBid_eval binary64_large
      binary64_large_plus_5 format_14g_large)

text \<open>
  C2, as stated, fails on the script in three ways, each on the auction of scenario S1
  (increment 5). (1) A call may pass an increment hint below the stored increment:
  after a first bid of 100, a bid of 101 with hint 1 is accepted. (2) The script takes
  an empty highest bidder for no bidder: after a bid of 100 by the bidder with the
  empty id, a second bid of 100 is accepted. (3) The sum is rounded to a double: after
  a bid of \<open>10 ^ 17\<close> the minimum \<open>10 ^ 17 + 5\<close> is rounded to \<open>10 ^ 17\<close>, and a
  second bid of \<open>10 ^ 17\<close> is accepted.
\<close>

theorem monotonic_price_counterexample:
  "bid_increment auction_S1 = Some 5 \<and> (0::rat) < 5
   \<and> \<not> monotonic_price (store_of auction_S1) ''auction:A'' 5 calls_hint
   \<and> \<not> monotonic_price (store_of auction_S1) ''auction:A'' 5 calls_empty_bidder
   \<and> \<not> monotonic_price (store_of auction_S1) ''auction:A'' 5 calls_large"
  unfolding monotonic_price_def Let_def accepted_hint accepted_empty_bidder accepted_large
  by (simp add: S1_fields lua_le_def)

lemma final_S2:
  "hashes (last (store_of auction_S1 # map snd
      (placeBid_calls (store_of auction_S1) ''auction:A'' calls_S2))) ''auction:A''
    = Some auction_S2"
  by (simp add: calls_S2_def bid_def placeBid_eval auction_S2_def)

text \<open>
  C2, amended. For every auction whose stored increment \<open>inc > 0\<close> and whose current
  bid, if it has a bid, are amounts of \<^verbatim>\<open>DECIMAL(12, 2)\<close> (two fractional digits, below
  \<open>10 ^ 10\<close>), and every sequence of \<open>placeBid\<close> calls whose bidder ids are not
  empty, whose amounts are such amounts or no numbers, and whose increment hints are
  unset or such amounts that are not positive or at least \<open>inc\<close>: the accepted
  amounts in commit order are strictly increasing, each accepted amount from the second
  onward is at least the previous accepted amount plus \<open>inc\<close>, in exact arithmetic,
  and the current bid never decreases once bids exist. Consequently, once a bid exists,
  a bid equal to the current bid, with such a hint, is never accepted, and it is
  rejected with TOO_LOW when it passes the earlier checks.
\<close>

theorem monotonic_price_amended:
  assumes "hashes s auctionKey = Some a" and "bid_increment a = Some inc"
    and "decimal_12_2 inc" and "0 < inc" and "decimal_current_bid a"
    and "\<forall>c \<in> set calls. bc_bidder c \<noteq> [] \<and> decimal_amount (bc_amount c)
           \<and> hint_respects inc (bc_hint c)"
    and "hint_respects inc hint"
  shows "monotonic_price s auctionKey inc calls
    \<and> (\<forall>a'. hashes (last (s # map snd (placeBid_calls s auctionKey calls))) auctionKey = Some a'
            \<and> \<not> P1_unset (highest_bidder_id a') \<longrightarrow>
          place_bid_status (fst (placeBid (last (s # map snd (placeBid_calls s auctionKey calls)))
              auctionKey (current_bid a') bidderId t hint)) \<noteq> 1
          \<and> (status a' = Active \<and> t < end_time a' \<and> bidderId \<noteq> seller_id a'
               \<and> valid_amount (current_bid a') \<longrightarrow>
             place_bid_status (fst (placeBid (last (s # map snd (placeBid_calls s auctionKey calls)))
               auctionKey (current_bid a') bidderId t hint)) = 0))"
proof (intro conjI allI impI)
  define tr where "tr = placeBid_calls s auctionKey calls"
  from placeBid_calls_monotone [OF assms(3,4,1,2,5,6)] obtain xs ys
    where lists: "accepted_amounts tr = map Fin xs"
      "currentBids auctionKey (s # map snd tr) = map Fin ys"
    and steps: "successively (\<lambda>x y. x + inc \<le> y) (floor_bid a @ xs)"
    and bids: "successively (\<le>) ys"
    unfolding tr_def by blast
  from steps have steps: "successively (\<lambda>x y. x + inc \<le> y) xs"
    by (simp add: successively_append_iff)
  then have sorted_steps: "sorted_wrt (\<lambda>x y. x + inc \<le> y) xs"
    by (simp add: successively_conv_sorted_wrt [OF transp_increment [OF assms(4)]])
  have increasing: "sorted_wrt (<) xs"
    by (rule sorted_wrt_mono_rel [OF _ sorted_steps]) (use assms(4) in linarith)
  from bids have monotone: "sorted ys"
    by (simp only: successively_conv_sorted_wrt [OF transp_on_le])
  from increasing steps monotone show "monotonic_price s auctionKey inc calls"
    unfolding monotonic_price_def Let_def tr_def [symmetric] lists
    by (simp only: lists_of_Fin simp_thms)
next
  fix a'
  assume "hashes (last (s # map snd (placeBid_calls s auctionKey calls))) auctionKey = Some a'
            \<and> \<not> P1_unset (highest_bidder_id a')"
  then have last: "hashes (last (s # map snd (placeBid_calls s auctionKey calls))) auctionKey
      = Some a'" and exists: "\<not> P1_unset (highest_bidder_id a')"
    by simp_all
  from placeBid_calls_last [OF assms(3,4,1,2,5,6)] last
  have inc: "bid_increment a' = Some inc" "decimal_current_bid a'"
    by simp_all
  note rejected = equal_bid_rejected [OF last inc(1) assms(3,4) inc(2) exists assms(7)]
  show "place_bid_status (fst (placeBid (last (s # map snd (placeBid_calls s auctionKey calls)))
              auctionKey (current_bid a') bidderId t hint)) \<noteq> 1"
    by (rule rejected(1))
  show "place_bid_status (fst (placeBid (last (s # map snd (placeBid_calls s auctionKey calls)))
               auctionKey (current_bid a') bidderId t hint)) = 0"
    if "status a' = Active \<and> t < end_time a' \<and> bidderId \<noteq> seller_id a'
               \<and> valid_amount (current_bid a')"
    using that by (intro rejected(2)) simp_all
qed

theorem monotonic_price_amended_witness:
  "hashes (store_of auction_S1) ''auction:A'' = Some auction_S1
   \<and> bid_increment auction_S1 = Some 5 \<and> decimal_12_2 5 \<and> (0::rat) < 5
   \<and> decimal_current_bid auction_S1
   \<and> map bc_bidder calls_S2 = [''U1'', ''U2'', ''U3'']
   \<and> map bc_amount calls_S2 = [Some (Fin 100), Some (Fin 105), Some (Fin 105)]
   \<and> decimal_12_2 100 \<and> decimal_12_2 105
   \<and> map bc_hint calls_S2 = [None, None, None] \<and> hint_respects 5 None
   \<and> monotonic_price (store_of auction_S1) ''auction:A'' 5 calls_S2
   \<and> hashes (last (store_of auction_S1 # map snd
        (placeBid_calls (store_of auction_S1) ''auction:A'' calls_S2))) ''auction:A''
       = Some auction_S2
   \<and> \<not> P1_unset (highest_bidder_id auction_S2)
   \<and> status auction_S2 = Active \<and> 920 < end_time auction_S2
   \<and> ''U3'' \<noteq> seller_id auction_S2 \<and> valid_amount (current_bid auction_S2)
   \<and> current_bid auction_S2 = Some (Fin 105)
   \<and> place_bid_status (fst (placeBid (last (store_of auction_S1 # map snd
        (placeBid_calls (store_of auction_S1) ''auction:A'' calls_S2))) ''auction:A''
        (Some (Fin 105)) ''U3'' 920 None)) = 0"
proof -
  have decimals: "decimal_12_2 5" "decimal_12_2 100" "decimal_12_2 105"
    by (simp_all add: decimal_12_2_def)
  have hyps:
    "hashes (store_of auction_S1) ''auction:A'' = Some auction_S1"
    "bid_increment auction_S1 = Some 5" "decimal_12_2 5" "(0::rat) < 5"
    "decimal_current_bid auction_S1"
    "\<forall>c \<in> set calls_S2. bc_bidder c \<noteq> [] \<and> decimal_amount (bc_amount c)
       \<and> hint_respects 5 (bc_hint c)"
    "hint_respects 5 None"
    by (simp_all add: store_of_lookup S1_fields decimal_current_bid_def P1_unset_def
        calls_S2_def bid_def decimals)
  have S2:
    "\<not> P1_unset (highest_bidder_id auction_S2)" "status auction_S2 = Active"
    "920 < end_time auction_S2" "''U3'' \<noteq> seller_id auction_S2"
    "valid_amount (current_bid auction_S2)" "current_bid auction_S2 = Some (Fin 105)"
    by (simp_all add: auction_S2_def S1_fields P1_unset_def valid_amount_def binary64_numeral)
  note inst = monotonic_price_amended [OF hyps, of "''U3''" 920]
  from inst have monotone: "monotonic_price (store_of auction_S1) ''auction:A'' 5 calls_S2"
    by (rule conjunct1)
  from inst [THEN conjunct2, rule_format, of auction_S2, THEN conjunct2, rule_format]
    final_S2 S2(1-5)
  have "place_bid_status (fst (placeBid (last (store_of auction_S1 # map snd
        (placeBid_calls (store_of auction_S1) ''auction:A'' calls_S2))) ''auction:A''
        (current_bid auction_S2) ''U3'' 920 None)) = 0"
    by blast
  then have too_low: "place_bid_status (fst (placeBid (last (store_of auction_S1 # map snd
        (placeBid_calls (store_of auction_S1) ''auction:A'' calls_S2))) ''auction:A''
        (Some (Fin 105)) ''U3'' 920 None)) = 0"
    by (simp only: S2(6))
  have shown:
    "map bc_bidder calls_S2 = [''U1'', ''U2'', ''U3'']"
    "map bc_amount calls_S2 = [Some (Fin 100), Some (Fin 105), Some (Fin 105)]"
    "map bc_hint calls_S2 = [None, None, None]"
    by (simp_all add: calls_S2_def bid_def)
  from hyps(1-5,7) decimals(2,3) shown monotone final_S2 S2 too_low show ?thesis
    by blast
qed

text \<open>
  C3, as stated, asks that \<open>placeBid\<close> on an ended auction return NOT_ACTIVE. The
  script validates the amount before it looks at the status: on the ended auction of
  scenario S1 a bid of 0 is answered INVALID_AMOUNT (-5), not NOT_ACTIVE (-3).
\<close>

theorem ended_placeBid_counterexample:
  "hashes (store_of auction_S1_ended) ''auction:A'' = Some auction_S1_ended
   \<and> status auction_S1_ended = Ended
   \<and> fst (placeBid (store_of auction_S1_ended) ''auction:A'' (Some (Fin 0)) ''U2'' 900 None)
        = InvalidBidAmount
   \<and> fst (placeBid (store_of auction_S1_ended) ''auction:A'' (Some (Fin 0)) ''U2'' 900 None)
        \<noteq> AuctionNotActive ''A'' Ended"
  by (simp add: placeBid_def store_of_lookup auction_S1_ended_def binary64_def lua_le_def)

lemma placeBid_ended:
  "hashes s auctionKey = Some a \<Longrightarrow> status a = Ended \<Longrightarrow>
   placeBid s auctionKey amountArg bidderId t incrementArg
     = (if valid_amount amountArg then AuctionNotActive (auction_id a) Ended
        else InvalidBidAmount, s)"
  by (simp add: placeBid_def valid_amount_def lua_le_def split: option.splits)

lemma finalize_calls_ended:
  "hashes s auctionKey = Some a \<Longrightarrow> status a = Ended \<Longrightarrow>
   finalize_calls s auctionKey ts = map (\<lambda>t. (AlreadyFinalized (auction_id a) Ended, s)) ts"
  by (induction ts) (simp_all add: finalizeAuction_def Let_def)

lemma finalizeAuction_first:
  "hashes s auctionKey = Some a \<Longrightarrow> status a \<noteq> Ended \<Longrightarrow> end_time a \<le> t \<Longrightarrow>
   finalize_succeeded (fst (finalizeAuction s auctionKey t))
   \<and> hashes (snd (finalizeAuction s auctionKey t)) auctionKey = Some (a\<lparr>status := Ended\<rparr>)
   \<and> auctions_active (snd (finalizeAuction s auctionKey t)) (auction_id a) = None"
  by (simp add: finalizeAuction_def finalize_succeeded_def Let_def split: option.splits)

text \<open>
  C3, amended. Status ended is terminal: on an ended auction every finalize call
  returns ALREADY_FINAL, every extend call returns NOT_ACTIVE, and every \<open>placeBid\<close>
  call returns NOT_ACTIVE when the script reads its amount as a number above 0 and
  INVALID_AMOUNT otherwise, each of them leaving the store unchanged. Hence in any sequence of
  finalize calls at or after the end time of an existing active auction exactly one
  call succeeds, the first: it sets the status to ended and removes the auction from
  the active-auctions index; every later call returns ALREADY_FINAL and leaves the
  store of the first call.
\<close>

theorem ended_is_terminal:
  "(hashes s auctionKey = Some a \<and> status a = Ended \<longrightarrow>
      finalizeAuction s auctionKey t = (AlreadyFinalized (auction_id a) Ended, s)
    \<and> extendAuction s auctionKey t threshold duration
        = (ExtendNotActive (auction_id a) Ended, s)
    \<and> placeBid s auctionKey bidAmount bidderId t incrementHint
        = (if valid_amount bidAmount then AuctionNotActive (auction_id a) Ended
           else InvalidBidAmount, s))
   \<and> (hashes s auctionKey = Some a \<and> status a = Active
        \<and> (\<forall>t' \<in> set (t # ts). end_time a \<le> t') \<longrightarrow>
      (let tr = finalize_calls s auctionKey (t # ts); s1 = snd (hd tr) in
         finalize_succeeded (fst (hd tr))
       \<and> hashes s1 auctionKey = Some (a\<lparr>status := Ended\<rparr>)
       \<and> auctions_active s1 (auction_id a) = None
       \<and> (\<forall>r \<in> set (tl tr). r = (AlreadyFinalized (auction_id a) Ended, s1))
       \<and> length (filter (\<lambda>r. finalize_succeeded (fst r)) tr) = 1))"
proof (intro conjI impI)
  assume "hashes s auctionKey = Some a \<and> status a = Ended"
  then have ended: "hashes s auctionKey = Some a" "status a = Ended" by simp_all
  show "finalizeAuction s auctionKey t = (AlreadyFinalized (auction_id a) Ended, s)"
    using ended by (simp add: finalizeAuction_def)
  show "extendAuction s auctionKey t threshold duration
          = (ExtendNotActive (auction_id a) Ended, s)"
    using ended by (simp add: extendAuction_def)
  show "placeBid s auctionKey bidAmount bidderId t incrementHint
          = (if valid_amount bidAmount then AuctionNotActive (auction_id a) Ended
             else InvalidBidAmount, s)"
    using ended by (rule placeBid_ended)
next
  assume "hashes s auctionKey = Some a \<and> status a = Active
            \<and> (\<forall>t' \<in> set (t # ts). end_time a \<le> t')"
  then have active: "hashes s auctionKey = Some a" "status a \<noteq> Ended" "end_time a \<le> t"
    by simp_all
  define r where "r = finalizeAuction s auctionKey t"
  from finalizeAuction_first [OF active] have first:
    "finalize_succeeded (fst r)" "hashes (snd r) auctionKey = Some (a\<lparr>status := Ended\<rparr>)"
    "auctions_active (snd r) (auction_id a) = None"
    by (simp_all add: r_def)
  have rest: "finalize_calls (snd r) auctionKey ts
      = map (\<lambda>t. (AlreadyFinalized (auction_id a) Ended, snd r)) ts"
    using finalize_calls_ended [OF first(2), of ts] by simp
  have tr: "finalize_calls s auctionKey (t # ts)
      = r # map (\<lambda>t. (AlreadyFinalized (auction_id a) Ended, snd r)) ts"
    by (simp add: r_def [symmetric] rest Let_def)
  have none: "filter (\<lambda>r. finalize_succeeded (fst r))
      (map (\<lambda>t. (AlreadyFinalized (auction_id a) Ended, snd r)) ts) = []"
    by (induction ts) (simp_all add: finalize_succeeded_def)
  show "let tr = finalize_calls s auctionKey (t # ts); s1 = snd (hd tr) in
         finalize_succeeded (fst (hd tr))
       \<and> hashes s1 auctionKey = Some (a\<lparr>status := Ended\<rparr>)
       \<and> auctions_active s1 (auction_id a) = None
       \<and> (\<forall>r \<in> set (tl tr). r = (AlreadyFinalized (auction_id a) Ended, s1))
       \<and> length (filter (\<lambda>r. finalize_succeeded (fst r)) tr) = 1"
    unfolding tr Let_def using first none by auto
qed

theorem ended_is_terminal_witness:
  "hashes (store_of auction_S1_ended) ''auction:A'' = Some auction_S1_ended
   \<and> status auction_S1_ended = Ended
   \<and> finalizeAuction (store_of auction_S1_ended) ''auction:A'' 1000
        = (AlreadyFinalized ''A'' Ended, store_of auction_S1_ended)
   \<and> extendAuction (store_of auction_S1_ended) ''auction:A'' 985 30 30
        = (ExtendNotActive ''A'' Ended, store_of auction_S1_ended)
   \<and> placeBid (store_of auction_S1_ended) ''auction:A'' (Some (Fin 105)) ''U2'' 985 None
        = (AuctionNotActive ''A'' Ended, store_of auction_S1_ended)
   \<and> hashes (store_of auction_S1_bid) ''auction:A'' = Some auction_S1_bid
   \<and> status auction_S1_bid = Active
   \<and> end_time auction_S1_bid \<le> 1000 \<and> end_time auction_S1_bid \<le> 1001
   \<and> end_time auction_S1_bid \<le> 1005
   \<and> length (filter (\<lambda>r. finalize_succeeded (fst r))
        (finalize_calls (store_of auction_S1_bid) ''auction:A'' [1000, 1001, 1005])) = 1"
proof -
  have ended:
    "hashes (store_of auction_S1_ended) ''auction:A'' = Some auction_S1_ended"
    "status auction_S1_ended = Ended" "auction_id auction_S1_ended = ''A''"
    by (simp_all add: store_of_lookup auction_S1_ended_def S1_bid_fields)
  have valid: "valid_amount (Some (Fin 105))"
    by (simp add: valid_amount_def binary64_numeral)
  note terminal = ended_is_terminal [of "store_of auction_S1_ended" "''auction:A''"
      auction_S1_ended _ _ _ _ _ _ "[]", THEN conjunct1, rule_format, OF conjI, OF ended(1,2)]
  have fin: "finalizeAuction (store_of auction_S1_ended) ''auction:A'' 1000
        = (AlreadyFinalized ''A'' Ended, store_of auction_S1_ended)"
    using terminal [of 1000] by (simp only: ended)
  have ext: "extendAuction (store_of auction_S1_ended) ''auction:A'' 985 30 30
        = (ExtendNotActive ''A'' Ended, store_of auction_S1_ended)"
    using terminal [of 985 30 30] by (simp only: ended)
  have bid: "placeBid (store_of auction_S1_ended) ''auction:A'' (Some (Fin 105)) ''U2'' 985 None
        = (AuctionNotActive ''A'' Ended, store_of auction_S1_ended)"
    using terminal [of 985 _ _ "Some (Fin 105)" "''U2''" None] valid by (simp only: ended if_True)
  have active:
    "hashes (store_of auction_S1_bid) ''auction:A'' = Some auction_S1_bid"
    "status auction_S1_bid = Active"
    "\<forall>t' \<in> set [1000, 1001, 1005]. end_time auction_S1_bid \<le> t'"
    by (simp_all add: store_of_lookup S1_bid_fields)
  have once: "length (filter (\<lambda>r. finalize_succeeded (fst r))
        (finalize_calls (store_of auction_S1_bid) ''auction:A'' [1000, 1001, 1005])) = 1"
    using ended_is_terminal [of "store_of auction_S1_bid" "''auction:A''" auction_S1_bid
        1000 30 30 None "''U2''" None "[1001, 1005]", THEN conjunct2] active
    by (simp only: Let_def)
  have times: "end_time auction_S1_bid \<le> 1000" "end_time auction_S1_bid \<le> 1001"
    "end_time auction_S1_bid \<le> 1005"
    by (simp_all add: S1_bid_fields)
  from ended(1,2) fin ext bid active(1,2) times once show ?thesis by blast
qed

text \<open>
  C4. Rejection atomicity of \<open>placeBid\<close>: a call whose reply is not OK (NOT_FOUND,
  INVALID_AMOUNT, NOT_ACTIVE, ENDED, SELLER_CANNOT_BID or TOO_LOW) leaves the whole
  store as it was: the auction hash, its bid history, the active-auctions index and
  the expiry times.
\<close>

theorem placeBid_rejection_atomic:
  "place_bid_status (fst (placeBid s auctionKey bidAmount bidderId currentTime incrementHint)) \<noteq> 1
   \<Longrightarrow> snd (placeBid s auctionKey bidAmount bidderId currentTime incrementHint) = s"
  using placeBid_cases [of s auctionKey bidAmount bidderId currentTime incrementHint]
  by (auto simp: acceptBid_reply)

theorem placeBid_rejection_atomic_witness:
  "place_bid_status (fst (placeBid (store_of auction_S1) ''auction:A'' (Some (Fin 100)) ''U1''
      1000 None)) \<noteq> 1
   \<and> snd (placeBid (store_of auction_S1) ''auction:A'' (Some (Fin 100)) ''U1'' 1000 None)
       = store_of auction_S1"
proof -
  have rejected:
    "place_bid_status (fst (placeBid (store_of auction_S1) ''auction:A'' (Some (Fin 100)) ''U1''
        1000 None)) \<noteq> 1"
    by (simp add: placeBid_eval)
  from rejected placeBid_rejection_atomic [OF rejected] show ?thesis by (rule conjI)
qed

text \<open>
  C5. Extension semantics: on an existing active auction, when
  \<open>0 < endTime - serverTime \<le> threshold\<close> the call sets the end time to the old end
  time plus the duration, sets the auction's entry of the active-auctions index to the
  new end time and reports the extension with old end time, new end time and the
  duration; otherwise the store is unchanged and the call reports no extension with the
  end time and the time remaining. With a positive duration no call decreases the end
  time of any auction.
\<close>

theorem extendAuction_semantics:
  "(hashes s auctionKey = Some a \<and> status a = Active \<longrightarrow>
      (if 0 < end_time a - serverTime \<and> end_time a - serverTime \<le> threshold
       then extendAuction s auctionKey serverTime threshold duration =
          (AuctionExtended (auction_id a) (end_time a) (end_time a + duration) duration
             (end_time a - serverTime),
           s\<lparr>hashes := (hashes s)(auctionKey \<mapsto> a\<lparr>end_time := end_time a + duration\<rparr>),
              auctions_active := (auctions_active s)(auction_id a \<mapsto> end_time a + duration),
              expire_at := (expire_at s)(auctionKey \<mapsto> end_time a + duration + 86400)\<rparr>)
       else extendAuction s auctionKey serverTime threshold duration =
          (NoExtensionNeeded (auction_id a) (end_time a) (end_time a - serverTime), s)))
   \<and> (0 < duration \<and> hashes s otherKey = Some b \<longrightarrow>
        (\<exists>b'. hashes (snd (extendAuction s auctionKey serverTime threshold duration)) otherKey
                = Some b' \<and> end_time b \<le> end_time b'))"
  by (auto simp: extendAuction_def Let_def split: option.splits)

theorem extendAuction_semantics_witness:
  "hashes (store_of auction_S1) ''auction:A'' = Some auction_S1 \<and> status auction_S1 = Active
   \<and> (0::int) < 30
   \<and> fst (extendAuction (store_of auction_S1) ''auction:A'' 985 30 30)
        = AuctionExtended ''A'' 1000 1030 30 15
   \<and> (\<exists>b'. hashes (snd (extendAuction (store_of auction_S1) ''auction:A'' 985 30 30))
              ''auction:A'' = Some b' \<and> 1000 \<le> end_time b')"
proof -
  have hyps:
    "hashes (store_of auction_S1) ''auction:A'' = Some auction_S1" "status auction_S1 = Active"
    "(0::int) < 30"
    by (simp_all add: store_of_lookup S1_fields)
  note inst = extendAuction_semantics [of "store_of auction_S1" "''auction:A''" auction_S1
      985 30 30 "''auction:A''" auction_S1]
  from inst hyps have
    "if 0 < end_time auction_S1 - 985 \<and> end_time auction_S1 - 985 \<le> 30
     then extendAuction (store_of auction_S1) ''auction:A'' 985 30 30 =
        (AuctionExtended (auction_id auction_S1) (end_time auction_S1)
           (end_time auction_S1 + 30) 30 (end_time auction_S1 - 985),
         (store_of auction_S1)\<lparr>hashes := (hashes (store_of auction_S1))(''auction:A'' \<mapsto>
              auction_S1\<lparr>end_time := end_time auction_S1 + 30\<rparr>),
            auctions_active := (auctions_active (store_of auction_S1))
              (auction_id auction_S1 \<mapsto> end_time auction_S1 + 30),
            expire_at := (expire_at (store_of auction_S1))
              (''auction:A'' \<mapsto> end_time auction_S1 + 30 + 86400)\<rparr>)
     else extendAuction (store_of auction_S1) ''auction:A'' 985 30 30 =
        (NoExtensionNeeded (auction_id auction_S1) (end_time auction_S1)
           (end_time auction_S1 - 985), store_of auction_S1)"
    by blast
  then have extended:
    "fst (extendAuction (store_of auction_S1) ''auction:A'' 985 30 30)
      = AuctionExtended ''A'' 1000 1030 30 15"
    by (simp add: S1_fields)
  from inst hyps have
    "\<exists>b'. hashes (snd (extendAuction (store_of auction_S1) ''auction:A'' 985 30 30))
            ''auction:A'' = Some b' \<and> end_time auction_S1 \<le> end_time b'"
    by blast
  then have later:
    "\<exists>b'. hashes (snd (extendAuction (store_of auction_S1) ''auction:A'' 985 30 30))
            ''auction:A'' = Some b' \<and> 1000 \<le> end_time b'"
    by (simp only: S1_fields)
  from hyps extended later show ?thesis by blast
qed

section \<open>The cold mirror\<close>

lemma cold_lookups:
  "auctions cold_S1 ''A'' = Some cold_row_S1" "auctions cold_ended ''A'' = Some cold_row_ended"
  "users cold_S1 = {''seller'', ''U1'', ''U2'', ''U3''}" "users cold_ended = users cold_S1"
  "bids cold_S1 = []" "bids cold_ended = []"
  by (simp_all add: cold_S1_def cold_ended_def)

text \<open>
  C6 asks that a mirror write leave a row alone whose status is not active. The
  \<^verbatim>\<open>UPDATE\<close> of \<^verbatim>\<open>AuctionRepository.update\<close> has no condition but the id: on the
  ended auction (won by U2 with 105.00, two bids) both the late mirror job and the late
  persist-bid job of U1's first bid succeed and overwrite current bid, highest bidder
  and bid count with 100.00, U1 and 1, the status staying ended.
\<close>

theorem mirror_update_unguarded:
  "map_option ca_status (auctions cold_ended ''A'') = Some Ended
   \<and> fst (processAuctionUpdate cold_ended update_job_U1) = JobReturned ''updated''
   \<and> auctions (snd (processAuctionUpdate cold_ended update_job_U1)) ''A''
       = Some (cold_row_ended\<lparr>ca_current_bid := Some 100,
            ca_highest_bidder_id := Some ''U1'', ca_total_bids := Some 1\<rparr>)
   \<and> fst (processBidPersistence cold_ended persist_job_U1 2000000)
       = JobReturned ''persisted_all''
   \<and> auctions (snd (processBidPersistence cold_ended persist_job_U1 2000000)) ''A''
       = Some (cold_row_ended\<lparr>ca_current_bid := Some 100,
            ca_highest_bidder_id := Some ''U1'', ca_total_bids := Some 1\<rparr>)
   \<and> Some (cold_row_ended\<lparr>ca_current_bid := Some 100,
            ca_highest_bidder_id := Some ''U1'', ca_total_bids := Some 1\<rparr>)
       \<noteq> auctions cold_ended ''A''"
proof -
  have row: "auction_checks (set_columns
      (no_updates\<lparr>upd_current_bid := Some (Some 100),
         upd_highest_bidder_id := Some (Some ''U1''), upd_total_bids := Some 1\<rparr>)
      cold_row_ended)"
    "set_columns
      (no_updates\<lparr>upd_current_bid := Some (Some 100),
         upd_highest_bidder_id := Some (Some ''U1''), upd_total_bids := Some 1\<rparr>)
      cold_row_ended
     = cold_row_ended\<lparr>ca_current_bid := Some 100,
            ca_highest_bidder_id := Some ''U1'', ca_total_bids := Some 1\<rparr>"
    by (simp_all add: auction_checks_def set_columns_def no_updates_def cold_row_ended_def
        cold_row_S1_def)
  have update: "AuctionRepository_update c ''A''
      (no_updates\<lparr>upd_current_bid := Some (Some 100),
         upd_highest_bidder_id := Some (Some ''U1''), upd_total_bids := Some 1\<rparr>)
     = Inr (Some (cold_row_ended\<lparr>ca_current_bid := Some 100,
              ca_highest_bidder_id := Some ''U1'', ca_total_bids := Some 1\<rparr>),
            c\<lparr>auctions := (auctions c)(''A'' \<mapsto> cold_row_ended\<lparr>ca_current_bid := Some 100,
              ca_highest_bidder_id := Some ''U1'', ca_total_bids := Some 1\<rparr>)\<rparr>)"
    if "auctions c ''A'' = Some cold_row_ended" "users c = users cold_S1" for c
    using that row
    by (simp add: AuctionRepository_update_def no_updates_def cold_lookups Let_def)
  have mirror: "processAuctionUpdate cold_ended update_job_U1
     = (JobReturned ''updated'',
        cold_ended\<lparr>auctions := (auctions cold_ended)(''A'' \<mapsto>
           cold_row_ended\<lparr>ca_current_bid := Some 100,
              ca_highest_bidder_id := Some ''U1'', ca_total_bids := Some 1\<rparr>)\<rparr>)"
    by (simp add: processAuctionUpdate_def update_job_U1_def update cold_lookups)
  have insert: "BidRepository_create cold_ended
      \<lparr>bv_auction_id = ''A'', bv_bidder_id = ''U1'', bv_amount = 100, bv_bid_time = 900000,
       bv_previous_bid = Some 100, bv_is_winning = True, bv_ip_address = None,
       bv_user_agent = None\<rparr>
     = Inr (\<lparr>cb_id = 0, cb_auction_id = ''A'', cb_bidder_id = ''U1'', cb_amount = 100,
             cb_bid_time = 900000, cb_previous_bid = Some 100, cb_is_winning = True,
             cb_ip_address = None, cb_user_agent = None\<rparr>,
            cold_ended\<lparr>bids := [\<lparr>cb_id = 0, cb_auction_id = ''A'', cb_bidder_id = ''U1'',
              cb_amount = 100, cb_bid_time = 900000, cb_previous_bid = Some 100,
              cb_is_winning = True, cb_ip_address = None, cb_user_agent = None\<rparr>]\<rparr>)"
    by (simp add: BidRepository_create_def cold_lookups or_null_def cold_row_ended_def
        cold_row_S1_def Let_def)
  have persist: "processBidPersistence cold_ended persist_job_U1 2000000
     = (JobReturned ''persisted_all'',
        cold_ended\<lparr>bids := [\<lparr>cb_id = 0, cb_auction_id = ''A'', cb_bidder_id = ''U1'',
              cb_amount = 100, cb_bid_time = 900000, cb_previous_bid = Some 100,
              cb_is_winning = True, cb_ip_address = None, cb_user_agent = None\<rparr>],
           auctions := (auctions cold_ended)(''A'' \<mapsto>
             cold_row_ended\<lparr>ca_current_bid := Some 100,
               ca_highest_bidder_id := Some ''U1'', ca_total_bids := Some 1\<rparr>)\<rparr>)"
    by (simp add: processBidPersistence_def persist_job_U1_def insert update cold_lookups)
  have changed: "Some (cold_row_ended\<lparr>ca_current_bid := Some 100,
            ca_highest_bidder_id := Some ''U1'', ca_total_bids := Some 1\<rparr>)
       \<noteq> auctions cold_ended ''A''"
    by (simp add: cold_lookups cold_row_ended_def cold_row_S1_def)
  have ended: "map_option ca_status (auctions cold_ended ''A'') = Some Ended"
    by (simp add: cold_lookups cold_row_ended_def)
  from ended changed show ?thesis
    by (simp add: mirror persist)
qed

text \<open>
  C7 asks that a redelivered persist-bid job leave the cold store as one delivery does,
  with exactly one row in \<^verbatim>\<open>bids\<close> for the accepted bid. The payload the Bid Service
  enqueues has no \<^verbatim>\<open>bidId\<close>, so the worker's idempotency check is skipped, and every
  inserted row gets a fresh id: the second delivery of the job of U1's bid inserts a
  second row for the same bid.
\<close>

theorem persist_bid_redelivery_duplicates:
  "pj_bidId persist_job_U1 = None
   \<and> fst (processBidPersistence cold_S1 persist_job_U1 901000) = JobReturned ''persisted_all''
   \<and> fst (processBidPersistence (snd (processBidPersistence cold_S1 persist_job_U1 901000))
        persist_job_U1 903000) = JobReturned ''persisted_all''
   \<and> map (\<lambda>b. (cb_id b, cb_auction_id b, cb_bidder_id b, cb_amount b, cb_bid_time b))
        (bids (snd (processBidPersistence cold_S1 persist_job_U1 901000)))
       = [(0, ''A'', ''U1'', 100, 900000)]
   \<and> map (\<lambda>b. (cb_id b, cb_auction_id b, cb_bidder_id b, cb_amount b, cb_bid_time b))
        (bids (snd (processBidPersistence (snd (processBidPersistence cold_S1 persist_job_U1 901000))
           persist_job_U1 903000)))
       = [(0, ''A'', ''U1'', 100, 900000), (1, ''A'', ''U1'', 100, 900000)]"
proof -
  define row where "row = cold_row_S1\<lparr>ca_current_bid := Some 100,
            ca_highest_bidder_id := Some ''U1'', ca_total_bids := Some 1\<rparr>"
  define bid_row where "bid_row = (\<lambda>n. \<lparr>cb_id = n, cb_auction_id = ''A'', cb_bidder_id = ''U1'',
             cb_amount = 100, cb_bid_time = 900000, cb_previous_bid = Some 100,
             cb_is_winning = True, cb_ip_address = None, cb_user_agent = None\<rparr>)"
  have checks: "auction_checks (set_columns
      (no_updates\<lparr>upd_current_bid := Some (Some 100),
         upd_highest_bidder_id := Some (Some ''U1''), upd_total_bids := Some 1\<rparr>) a) "
    "set_columns
      (no_updates\<lparr>upd_current_bid := Some (Some 100),
         upd_highest_bidder_id := Some (Some ''U1''), upd_total_bids := Some 1\<rparr>) a = row"
    if "a = cold_row_S1 \<or> a = row" for a
    using that
    by (rule disjE;
        simp add: auction_checks_def set_columns_def no_updates_def row_def cold_row_S1_def)+
  have row_bidder: "ca_highest_bidder_id row = Some ''U1''"
    by (simp add: row_def)
  have row_user: "''U1'' \<in> users cold_S1"
    by (simp add: cold_lookups)
  have update: "AuctionRepository_update c ''A''
      (no_updates\<lparr>upd_current_bid := Some (Some 100),
         upd_highest_bidder_id := Some (Some ''U1''), upd_total_bids := Some 1\<rparr>)
     = Inr (Some row, c\<lparr>auctions := (auctions c)(''A'' \<mapsto> row)\<rparr>)"
    if "auctions c ''A'' = Some a" "a = cold_row_S1 \<or> a = row" "users c = users cold_S1" for c a
    using that(1,3) checks [OF that(2)] row_bidder row_user
    by (simp add: AuctionRepository_update_def no_updates_def Let_def)
  have insert: "BidRepository_create c
      \<lparr>bv_auction_id = ''A'', bv_bidder_id = ''U1'', bv_amount = 100, bv_bid_time = 900000,
       bv_previous_bid = Some 100, bv_is_winning = True, bv_ip_address = None,
       bv_user_agent = None\<rparr>
     = Inr (bid_row (length (bids c)), c\<lparr>bids := bids c @ [bid_row (length (bids c))]\<rparr>)"
    if "auctions c ''A'' = Some a" "a = cold_row_S1 \<or> a = row" "users c = users cold_S1" for c a
  proof -
    have "ca_seller_id a = ''seller''"
      using that(2) by (rule disjE) (simp_all add: row_def cold_row_S1_def)
    moreover have "''U1'' \<in> users c"
      by (simp add: that(3) cold_lookups)
    ultimately show ?thesis
      using that(1)
      by (simp add: BidRepository_create_def or_null_def Let_def bid_row_def)
  qed
  have persist: "processBidPersistence c persist_job_U1 now
     = (JobReturned ''persisted_all'',
        c\<lparr>bids := bids c @ [bid_row (length (bids c))],
          auctions := (auctions c)(''A'' \<mapsto> row)\<rparr>)"
    if "auctions c ''A'' = Some a" "a = cold_row_S1 \<or> a = row" "users c = users cold_S1"
    for c a now
    using that
    by (simp add: processBidPersistence_def persist_job_U1_def insert [OF that]
        update [of _ a])
  define c1 where "c1 = cold_S1\<lparr>bids := [bid_row 0], auctions := (auctions cold_S1)(''A'' \<mapsto> row)\<rparr>"
  have first: "processBidPersistence cold_S1 persist_job_U1 901000
     = (JobReturned ''persisted_all'', c1)"
    using persist [of cold_S1 cold_row_S1 901000]
    by (simp add: cold_lookups c1_def)
  have c1: "auctions c1 ''A'' = Some row" "users c1 = users cold_S1" "bids c1 = [bid_row 0]"
    by (simp_all add: c1_def)
  have second: "processBidPersistence c1 persist_job_U1 903000
     = (JobReturned ''persisted_all'',
        c1\<lparr>bids := [bid_row 0, bid_row 1], auctions := (auctions c1)(''A'' \<mapsto> row)\<rparr>)"
    using persist [of c1 row 903000] c1
    by simp
  have no_id: "pj_bidId persist_job_U1 = None"
    by (simp add: persist_job_U1_def)
  show ?thesis
    by (simp add: first second c1 bid_row_def no_id)
qed

section \<open>Lazy hydration\<close>

lemma loadAuctionToRedis_ended:
  "ca_end_time auction < t_load clock \<Longrightarrow> loadAuctionToRedis sys auctionId auction clock = sys"
proof -
  assume "ca_end_time auction < t_load clock"
  then have "ca_end_time auction div 1000 \<le> t_load clock div 1000"
    by (intro zdiv_mono1) simp_all
  then show ?thesis
    by (simp add: loadAuctionToRedis_def Let_def)
qed

text \<open>
  C10. When the rate gate lets the bid pass, the hot store has no record of the auction
  and the cold store has the auction with an end time in the past, the Bid Service
  answers the bid with the error code AUCTION_NOT_FOUND, not AUCTION_ENDED:
  \<^verbatim>\<open>loadAuctionToRedis\<close> installs nothing, the retry of \<open>placeBid\<close> returns
  NOT_FOUND again, the hot store stays as it was, and the bidder receives BID_REJECTED
  with the code AUCTION_NOT_FOUND.
\<close>

theorem ended_auction_hydration_not_found:
  assumes "''rate_limit:bid:'' @ rq_bidderId bidData \<notin> rate_limit_keys sys"
    and "hashes (hot sys) (''auction:'' @ rq_auctionId bidData) = None"
    and "AuctionRepository_findById (cold sys) (rq_auctionId bidData) = Some auction"
    and "ca_end_time auction < t_load clock"
  shows "BidService_placeBid sys bidData clock
      = (ServiceRejected ''AUCTION_NOT_FOUND'' AuctionNotFound,
         sys\<lparr>rate_limit_keys :=
               insert (''rate_limit:bid:'' @ rq_bidderId bidData) (rate_limit_keys sys)\<rparr>)
    \<and> bid_placed_reply (rq_auctionId bidData) (fst (BidService_placeBid sys bidData clock))
      = BID_REJECTED (rq_auctionId bidData) ''AUCTION_NOT_FOUND'' (Some AuctionNotFound)
    \<and> loadAuctionToRedis sys (rq_auctionId bidData) auction clock = sys"
proof -
  have "BidService_placeBid sys bidData clock
      = (ServiceRejected ''AUCTION_NOT_FOUND'' AuctionNotFound,
         sys\<lparr>rate_limit_keys :=
               insert (''rate_limit:bid:'' @ rq_bidderId bidData) (rate_limit_keys sys)\<rparr>)"
    using assms(1,2,3) loadAuctionToRedis_ended [OF assms(4)]
    by (simp add: BidService_placeBid_def Let_def placeBid_absent getErrorCode_def)
  then show ?thesis
    by (simp add: loadAuctionToRedis_ended [OF assms(4)])
qed

theorem ended_auction_hydration_not_found_witness:
  "''rate_limit:bid:'' @ rq_bidderId request_U1 \<notin> rate_limit_keys system_evicted
   \<and> hashes (hot system_evicted) (''auction:'' @ rq_auctionId request_U1) = None
   \<and> AuctionRepository_findById (cold system_evicted) (rq_auctionId request_U1)
       = Some cold_row_S1
   \<and> ca_end_time cold_row_S1 < t_load clock_late
   \<and> BidService_placeBid system_evicted request_U1 clock_late
       = (ServiceRejected ''AUCTION_NOT_FOUND'' AuctionNotFound,
          system_evicted\<lparr>rate_limit_keys := {''rate_limit:bid:U1''}\<rparr>)
   \<and> bid_placed_reply ''A'' (fst (BidService_placeBid system_evicted request_U1 clock_late))
       = BID_REJECTED ''A'' ''AUCTION_NOT_FOUND'' (Some AuctionNotFound)
   \<and> loadAuctionToRedis system_evicted ''A'' cold_row_S1 clock_late = system_evicted"
proof -
  have request: "rq_bidderId request_U1 = ''U1''" "rq_auctionId request_U1 = ''A''"
    by (simp_all add: request_U1_def)
  have hyps:
    "''rate_limit:bid:'' @ rq_bidderId request_U1 \<notin> rate_limit_keys system_evicted"
    "hashes (hot system_evicted) (''auction:'' @ rq_auctionId request_U1) = None"
    "AuctionRepository_findById (cold system_evicted) (rq_auctionId request_U1)
       = Some cold_row_S1"
    "ca_end_time cold_row_S1 < t_load clock_late"
    by (simp_all add: system_evicted_def empty_hot_def request AuctionRepository_findById_def
        cold_lookups cold_row_S1_def clock_late_def)
  have keys: "rate_limit_keys system_evicted = {}"
    by (simp add: system_evicted_def)
  from ended_auction_hydration_not_found [OF hyps] hyps show ?thesis
    by (simp add: keys request)
qed

section \<open>Clock sync\<close>

text \<open>
  C9 asks that the gateway send SERVER_TIME, with the server's clock, to every
  connection that passes authentication. The connection handlers only register
  listeners: the connection of U1, whose token verifies, is accepted and nothing is
  emitted to it; no connection handler emits anything, and no listener of
  \<^verbatim>\<open>initializeSocketServer\<close> ever emits an event named SERVER_TIME.
\<close>

theorem connection_emits_no_server_time:
  "connect verify_U1 ''socket-1'' handshake_U1
     = Inr (\<lparr>sk_id = ''socket-1'', sk_userId = ''U1'', sk_username = ''u1'',
             sk_joinedAuctions = []\<rparr>, [])
   \<and> snd (on_connection s) = []
   \<and> ''SERVER_TIME'' \<notin> ob_event ` set (snd (snd (socket_on rooms s ev)))"
proof (intro conjI)
  show "connect verify_U1 ''socket-1'' handshake_U1
     = Inr (\<lparr>sk_id = ''socket-1'', sk_userId = ''U1'', sk_username = ''u1'',
             sk_joinedAuctions = []\<rparr>, [])"
    by (simp add: connect_def authenticate_def handshake_token_def handshake_U1_def
        verify_U1_def on_connection_def)
  show "snd (on_connection s) = []"
    by (simp add: on_connection_def)
  show "''SERVER_TIME'' \<notin> ob_event ` set (snd (snd (socket_on rooms s ev)))"
    by (cases ev) (auto simp: Let_def split: option.splits)
qed

end
